theory Spec2Isabelle
  imports
    Main
    "HOL-Library.Word"
    "HOL-Library.Multiset"
    "HOL-Library.Char_ord"
    "HOL-Library.List_Lexorder"
begin

section \<open>Shared vocabulary of the task packages\<close>

text \<open>
  A Go pointer field (\<^verbatim>\<open>*string\<close>, \<^verbatim>\<open>*bool\<close>, \<^verbatim>\<open>*int32\<close>) is an
  option: \<open>None\<close> is nil. The helpers \<^verbatim>\<open>fi.StringValue\<close>, \<^verbatim>\<open>fi.BoolValue\<close>,
  \<^verbatim>\<open>fi.Int32Value\<close> and their \<^verbatim>\<open>aws.\<close> twins read a pointer and give the zero
  value of the type at nil.
\<close>

definition StringValue :: "string option \<Rightarrow> string" where
  "StringValue p = (case p of None \<Rightarrow> [] | Some s \<Rightarrow> s)"

definition BoolValue :: "bool option \<Rightarrow> bool" where
  "BoolValue p = (case p of None \<Rightarrow> False | Some b \<Rightarrow> b)"

definition Int32Value :: "32 word option \<Rightarrow> 32 word" where
  "Int32Value p = (case p of None \<Rightarrow> 0 | Some n \<Rightarrow> n)"

type_synonym Lifecycle = string

text \<open>
  Go \<^verbatim>\<open>error\<close> values. \<open>RequiredField\<close> and \<open>CannotChangeField\<close> are the typed
  validation errors of package fi, \<open>TryAgainLaterError\<close> is its retry signal,
  \<open>Errorf\<close> is \<^verbatim>\<open>fmt.Errorf\<close> with its format string and its arguments, and
  \<open>CloudError\<close> is an error value handed up unchanged from a cloud collaborator
  (\<^verbatim>\<open>return err\<close>); \<open>'c\<close> is the collaborator's own error type.
\<close>

datatype 'c error =
    RequiredField string
  | CannotChangeField string
  | TryAgainLaterError string
  | Errorf string "'c fmt_arg list"
  | CloudError 'c
and 'c fmt_arg =
    ArgString string
  | ArgInt int
  | ArgCloudError 'c
  | ArgError "'c error"

text \<open>\<^verbatim>\<open>strings.HasPrefix\<close> and \<^verbatim>\<open>strings.Contains\<close> on byte strings.\<close>

definition HasPrefix :: "string \<Rightarrow> string \<Rightarrow> bool" where
  "HasPrefix s p = (take (length p) s = p)"

fun Contains :: "string \<Rightarrow> string \<Rightarrow> bool" where
  "Contains [] sub = (sub = [])"
| "Contains (c # s) sub = (HasPrefix (c # s) sub \<or> Contains s sub)"


section \<open>openstacktasks: ServerGroup\<close>

text \<open>
  The task struct. The mutex is not a field of the model: every method that
  takes it runs as one atomic step. \<open>members\<close> and \<open>gotMemberList\<close> are the
  internal (unexported) fields.
\<close>

record ServerGroup =
  SG_ID :: "string option"
  SG_Name :: "string option"
  SG_ClusterName :: "string option"
  SG_IGName :: "string option"
  SG_Policies :: "string list"
  SG_MaxSize :: "32 word option"
  SG_Lifecycle :: Lifecycle
  members :: "string list"
  gotMemberList :: bool

text \<open>The \<^verbatim>\<open>servergroups.ServerGroup\<close> value the compute API lists.\<close>

record OSServerGroup =
  osID :: string
  osName :: string
  osPolicies :: "string list"
  osMembers :: "string list"

text \<open>
  The compute API as the task uses it. \<open>ListAllPages\<close> is the answer of
  \<^verbatim>\<open>servergroups.List(...).AllPages()\<close> and \<open>ExtractServerGroups\<close> decodes a page;
  each may fail with the collaborator's error.
\<close>

record ('c, 'page) OpenstackCloud =
  ListAllPages :: "'c + 'page"
  ExtractServerGroups :: "'page \<Rightarrow> 'c + OSServerGroup list"

text \<open>The calls a ServerGroup task makes on the cloud, for the record of effects.\<close>

datatype os_call =
    ListServerGroups
  | CreateServerGroup string "string list"
  | ListInstances string
  | DeleteInstanceWithID string

fun os_mutating :: "os_call \<Rightarrow> bool" where
  "os_mutating ListServerGroups = False"
| "os_mutating (CreateServerGroup n ps) = True"
| "os_mutating (ListInstances n) = False"
| "os_mutating (DeleteInstanceWithID i) = True"

text \<open>
  The loop of \<^verbatim>\<open>Find\<close> over the listed groups: \<open>actual\<close> is the match found so
  far; a second match returns the error at once.
\<close>

fun ServerGroup_Find_loop ::
  "ServerGroup \<Rightarrow> string \<Rightarrow> ServerGroup option \<Rightarrow> OSServerGroup list
    \<Rightarrow> 'c error + ServerGroup option" where
  "ServerGroup_Find_loop s n actual [] = Inr actual"
| "ServerGroup_Find_loop s n actual (g # gs) =
     (if osName g = n then
        (if actual \<noteq> None then
           Inl (Errorf ''Found multiple server groups with name %s'' [ArgString (StringValue (SG_Name s))])
         else
           ServerGroup_Find_loop s n
             (Some \<lparr> SG_ID = Some (osID g),
                     SG_Name = Some (osName g),
                     SG_ClusterName = SG_ClusterName s,
                     SG_IGName = SG_IGName s,
                     SG_Policies = osPolicies g,
                     SG_MaxSize = Some (word_of_nat (length (osMembers g))),
                     SG_Lifecycle = SG_Lifecycle s,
                     members = osMembers g,
                     gotMemberList = False \<rparr>)
             gs)
      else ServerGroup_Find_loop s n actual gs)"

text \<open>
  \<^verbatim>\<open>Find\<close> on receiver \<open>s\<close> (\<open>None\<close> is the nil receiver). The result is the
  receiver after the call, the calls issued on the cloud, and Go's pair
  \<^verbatim>\<open>(*ServerGroup, error)\<close> as a sum: \<open>Inr None\<close> is \<^verbatim>\<open>(nil, nil)\<close>.
\<close>

definition ServerGroup_Find ::
  "('c, 'page) OpenstackCloud \<Rightarrow> ServerGroup option
    \<Rightarrow> ServerGroup option \<times> os_call list \<times> ('c error + ServerGroup option)" where
  "ServerGroup_Find cloud so =
     (case so of
        None \<Rightarrow> (None, [], Inr None)
      | Some s \<Rightarrow>
          (case SG_Name s of
             None \<Rightarrow> (Some s, [], Inr None)
           | Some n \<Rightarrow>
               (case ListAllPages cloud of
                  Inl err \<Rightarrow>
                    (Some s, [ListServerGroups],
                     Inl (Errorf ''Failed to list server groups: %v'' [ArgCloudError err]))
                | Inr page \<Rightarrow>
                    (case ExtractServerGroups cloud page of
                       Inl err \<Rightarrow>
                         (Some s, [ListServerGroups],
                          Inl (Errorf ''Failed to extract server groups: %v'' [ArgCloudError err]))
                     | Inr serverGroups \<Rightarrow>
                         (case ServerGroup_Find_loop s n None serverGroups of
                            Inl e \<Rightarrow> (Some s, [ListServerGroups], Inl e)
                          | Inr None \<Rightarrow> (Some s, [ListServerGroups], Inr None)
                          | Inr (Some actual) \<Rightarrow>
                              (let s1 = (if Int32Value (SG_MaxSize actual) <s Int32Value (SG_MaxSize s)
                                         then s\<lparr>SG_MaxSize := SG_MaxSize actual\<rparr> else s);
                                   s2 = s1\<lparr>SG_ID := SG_ID actual, members := members actual\<rparr>
                               in (Some s2, [ListServerGroups], Inr (Some actual))))))))"

text \<open>
  \<^verbatim>\<open>CheckChanges(a, e, changes)\<close>: \<open>a\<close> is the observed task (\<open>None\<close> is nil), and
  a nil field of \<open>changes\<close> is an unchanged field. \<open>None\<close> is the nil error.
\<close>

definition ServerGroup_CheckChanges ::
  "ServerGroup option \<Rightarrow> ServerGroup \<Rightarrow> ServerGroup \<Rightarrow> 'c error option" where
  "ServerGroup_CheckChanges a e changes =
     (if a = None then
        (if SG_Name e = None then Some (RequiredField ''Name'') else None)
      else
        (if SG_ID changes \<noteq> None then Some (CannotChangeField ''ID'')
         else if SG_Name changes \<noteq> None then Some (CannotChangeField ''Name'')
         else None))"

text \<open>
  \<^verbatim>\<open>klog.Fatalf\<close> ends the process; it is the \<open>Inl\<close> of the result, with the
  format string and its argument.
\<close>

datatype fatal = Fatalf string string

definition AddNewMember :: "string \<Rightarrow> ServerGroup \<Rightarrow> fatal + ServerGroup" where
  "AddNewMember memberID s =
     (if gotMemberList s then
        Inl (Fatalf ''attempt to add member %q after member list already returned'' memberID)
      else Inr (s\<lparr>members := members s @ [memberID]\<rparr>))"

definition GetMembers :: "ServerGroup \<Rightarrow> string list \<times> ServerGroup" where
  "GetMembers s = (members s, s\<lparr>gotMemberList := True\<rparr>)"

text \<open>
  A sequence of calls on one ServerGroup, in the order in which they take the
  mutex. The run returns the final task and the slices handed out by the
  \<^verbatim>\<open>GetMembers\<close> calls (oldest first), or the fatal exit that stopped it.
\<close>

datatype member_call = CallAddNewMember string | CallGetMembers

fun run_calls :: "member_call list \<Rightarrow> ServerGroup \<Rightarrow> fatal + (ServerGroup \<times> string list list)" where
  "run_calls [] s = Inr (s, [])"
| "run_calls (CallAddNewMember m # cs) s =
     (case AddNewMember m s of
        Inl f \<Rightarrow> Inl f
      | Inr s' \<Rightarrow> run_calls cs s')"
| "run_calls (CallGetMembers # cs) s =
     (case GetMembers s of
        (r, s') \<Rightarrow> (case run_calls cs s' of
                      Inl f \<Rightarrow> Inl f
                    | Inr (s'', rs) \<Rightarrow> Inr (s'', r # rs)))"


section \<open>hetznertasks: LoadBalancer\<close>

record LoadBalancerService =
  Protocol :: string
  ListenerPort :: "int option"
  DestinationPort :: "int option"

text \<open>
  The task struct. \<open>'net\<close> is the Network task the load balancer refers to.
  A Go map is a partial function, and a nil map is the empty one.
\<close>

record 'net LoadBalancer =
  LB_Name :: "string option"
  LB_Lifecycle :: Lifecycle
  LB_Network :: "'net option"
  LB_ID :: "int option"
  LB_Location :: string
  LB_Type :: string
  LB_Services :: "LoadBalancerService list"
  LB_Target :: string
  LB_Labels :: "string \<rightharpoonup> string"

text \<open>
  The \<^verbatim>\<open>hcloud.LoadBalancer\<close> value the client lists, with the fields \<^verbatim>\<open>Find\<close>
  reads. \<open>h_Location\<close> and \<open>h_LoadBalancerType\<close> hold the \<^verbatim>\<open>Name\<close> behind the
  pointer, \<open>ht_LabelSelector\<close> the \<^verbatim>\<open>Selector\<close> behind it; \<open>None\<close> is nil.
\<close>

datatype hcloud_target_type =
    LoadBalancerTargetTypeServer
  | LoadBalancerTargetTypeLabelSelector
  | LoadBalancerTargetTypeIP

record hcloud_LoadBalancerService =
  hs_Protocol :: string
  hs_ListenPort :: int
  hs_DestinationPort :: int

record hcloud_LoadBalancerTarget =
  ht_Type :: hcloud_target_type
  ht_LabelSelector :: "string option"

record hcloud_LoadBalancer =
  h_ID :: int
  h_Name :: string
  h_Labels :: "string \<rightharpoonup> string"
  h_Location :: "string option"
  h_LoadBalancerType :: "string option"
  h_Services :: "hcloud_LoadBalancerService list"
  h_Targets :: "hcloud_LoadBalancerTarget list"

text \<open>The load balancer client: \<open>All\<close> is the answer of \<^verbatim>\<open>client.All\<close>.\<close>

record 'c HetznerCloud =
  All :: "'c + hcloud_LoadBalancer list"

text \<open>The client calls the task makes (\<^verbatim>\<open>Find\<close> and \<^verbatim>\<open>RenderHetzner\<close>).\<close>

datatype hcloud_call =
    Client_All
  | Client_Create string
  | Client_Get string
  | Client_Update string
  | Client_AddService string
  | Client_AddLabelSelectorTarget string

fun hcloud_mutating :: "hcloud_call \<Rightarrow> bool" where
  "hcloud_mutating Client_All = False"
| "hcloud_mutating (Client_Get i) = False"
| "hcloud_mutating (Client_Create n) = True"
| "hcloud_mutating (Client_Update n) = True"
| "hcloud_mutating (Client_AddService p) = True"
| "hcloud_mutating (Client_AddLabelSelectorTarget s) = True"

text \<open>The value \<^verbatim>\<open>matches\<close> that \<^verbatim>\<open>Find\<close> builds from a listed load balancer.\<close>

definition LoadBalancer_matches :: "'net LoadBalancer \<Rightarrow> hcloud_LoadBalancer \<Rightarrow> 'net LoadBalancer" where
  "LoadBalancer_matches v loadbalancer =
     \<lparr> LB_Name = Some (h_Name loadbalancer),
       LB_Lifecycle = LB_Lifecycle v,
       LB_Network = LB_Network v,
       LB_ID = Some (h_ID loadbalancer),
       LB_Location = (case h_Location loadbalancer of None \<Rightarrow> [] | Some n \<Rightarrow> n),
       LB_Type = (case h_LoadBalancerType loadbalancer of None \<Rightarrow> [] | Some n \<Rightarrow> n),
       LB_Services =
         map (\<lambda>service. \<lparr> Protocol = hs_Protocol service,
                           ListenerPort = Some (hs_ListenPort service),
                           DestinationPort = Some (hs_DestinationPort service) \<rparr>)
             (h_Services loadbalancer),
       LB_Target =
         foldl (\<lambda>tgt target.
                  (case ht_LabelSelector target of
                     None \<Rightarrow> tgt
                   | Some sel \<Rightarrow>
                       if ht_Type target = LoadBalancerTargetTypeLabelSelector then sel else tgt))
               [] (h_Targets loadbalancer),
       LB_Labels = h_Labels loadbalancer \<rparr>"

text \<open>The loop of \<^verbatim>\<open>Find\<close>: the first load balancer with the task's name is returned.\<close>

fun LoadBalancer_Find_loop ::
  "'net LoadBalancer \<Rightarrow> hcloud_LoadBalancer list \<Rightarrow> 'net LoadBalancer option" where
  "LoadBalancer_Find_loop v [] = None"
| "LoadBalancer_Find_loop v (loadbalancer # rest) =
     (if h_Name loadbalancer = StringValue (LB_Name v)
      then Some (LoadBalancer_matches v loadbalancer)
      else LoadBalancer_Find_loop v rest)"

text \<open>
  \<^verbatim>\<open>Find\<close>: the receiver after the call, the client calls issued, and the
  pair \<^verbatim>\<open>(*LoadBalancer, error)\<close>.
\<close>

definition LoadBalancer_Find ::
  "'c HetznerCloud \<Rightarrow> 'net LoadBalancer
    \<Rightarrow> 'net LoadBalancer \<times> hcloud_call list \<times> ('c error + 'net LoadBalancer option)" where
  "LoadBalancer_Find cloud v =
     (case All cloud of
        Inl err \<Rightarrow> (v, [Client_All], Inl (CloudError err))
      | Inr loadbalancers \<Rightarrow>
          (case LoadBalancer_Find_loop v loadbalancers of
             None \<Rightarrow> (v, [Client_All], Inr None)
           | Some matches \<Rightarrow> (v\<lparr>LB_ID := LB_ID matches\<rparr>, [Client_All], Inr (Some matches))))"

definition LoadBalancer_CheckChanges ::
  "'net LoadBalancer option \<Rightarrow> 'net LoadBalancer \<Rightarrow> 'net LoadBalancer \<Rightarrow> 'c error option" where
  "LoadBalancer_CheckChanges a e changes =
     (case a of
        Some a' \<Rightarrow>
          (if LB_Name changes \<noteq> None then Some (CannotChangeField ''Name'')
           else if LB_ID changes \<noteq> None then Some (CannotChangeField ''ID'')
           else if LB_Location changes \<noteq> [] then Some (CannotChangeField ''Location'')
           else if LB_Type changes \<noteq> [] then Some (CannotChangeField ''Type'')
           else if length (LB_Services changes) > 0 \<and> length (LB_Services a') > 0
             then Some (CannotChangeField ''Subnets'')
           else if LB_Target changes \<noteq> [] \<and> LB_Target a' \<noteq> []
             then Some (CannotChangeField ''Target'')
           else None)
      | None \<Rightarrow>
          (if LB_Name e = None then Some (RequiredField ''Name'')
           else if LB_Location e = [] then Some (RequiredField ''Location'')
           else if LB_Type e = [] then Some (RequiredField ''Type'')
           else if length (LB_Services e) = 0 then Some (RequiredField ''Services'')
           else if LB_Target e = [] then Some (RequiredField ''Target'')
           else None))"


section \<open>awstasks: ClassicLoadBalancer\<close>

text \<open>
  Modelled from the spec: the Subnet and SecurityGroup task structs are not
  among the sources. A task is "identified by a stable name" and holds its
  declared attributes; the one attribute the load balancer reads is the
  provider \<^verbatim>\<open>ID\<close> (\<^verbatim>\<open>&Subnet{ID: subnet}\<close>, \<^verbatim>\<open>subnet.ID\<close>,
  \<^verbatim>\<open>fi.StringValue(s.ID)\<close>), nil until the provider has assigned one.
\<close>

record Subnet =
  Subnet_Name :: "string option"
  Subnet_ID :: "string option"

record SecurityGroup =
  SecurityGroup_Name :: "string option"
  SecurityGroup_ID :: "string option"

record ClassicLoadBalancerListener =
  InstancePort :: int
  SSLCertificateID :: string

text \<open>The attribute blocks, with the fields this file reads.\<close>

record ClassicLoadBalancerHealthCheck =
  HC_Target :: "string option"
  HC_HealthyThreshold :: "64 word option"
  HC_UnhealthyThreshold :: "64 word option"
  HC_Interval :: "64 word option"
  HC_Timeout :: "64 word option"

record ClassicLoadBalancerAccessLog =
  AL_EmitInterval :: "64 word option"
  AL_Enabled :: "bool option"
  AL_S3BucketName :: "string option"
  AL_S3BucketPrefix :: "string option"

record ClassicLoadBalancerConnectionDraining =
  CD_Enabled :: "bool option"
  CD_Timeout :: "64 word option"

record ClassicLoadBalancerConnectionSettings =
  CS_IdleTimeout :: "64 word option"

record ClassicLoadBalancerCrossZoneLoadBalancing =
  CZ_Enabled :: "bool option"

record ClassicLoadBalancer =
  CLB_Name :: "string option"
  CLB_Lifecycle :: Lifecycle
  CLB_LoadBalancerName :: "string option"
  CLB_DNSName :: "string option"
  CLB_HostedZoneId :: "string option"
  CLB_Subnets :: "Subnet list"
  CLB_SecurityGroups :: "SecurityGroup list"
  CLB_Listeners :: "string \<rightharpoonup> ClassicLoadBalancerListener"
  CLB_Scheme :: "string option"
  CLB_HealthCheck :: "ClassicLoadBalancerHealthCheck option"
  CLB_AccessLog :: "ClassicLoadBalancerAccessLog option"
  CLB_ConnectionDraining :: "ClassicLoadBalancerConnectionDraining option"
  CLB_ConnectionSettings :: "ClassicLoadBalancerConnectionSettings option"
  CLB_CrossZoneLoadBalancing :: "ClassicLoadBalancerCrossZoneLoadBalancing option"
  CLB_SSLCertificateID :: string
  CLB_Tags :: "string \<rightharpoonup> string"
  CLB_ForAPIServer :: bool
  CLB_Shared :: "bool option"

text \<open>
  Modelled from the spec: \<^verbatim>\<open>OrderSubnetsById\<close> and \<^verbatim>\<open>OrderSecurityGroupsById\<close> are
  not among the sources. The lists are "sorted by key", the key being the ID
  their names give; \<^verbatim>\<open>OrderLoadBalancersByName\<close>, which is there, compares
  \<^verbatim>\<open>fi.StringValue\<close> of the key with \<^verbatim>\<open><\<close> on strings, and so do these.
\<close>

definition OrderSubnetsById :: "Subnet \<Rightarrow> string" where
  "OrderSubnetsById s = StringValue (Subnet_ID s)"

definition OrderSecurityGroupsById :: "SecurityGroup \<Rightarrow> string" where
  "OrderSecurityGroupsById g = StringValue (SecurityGroup_ID g)"

definition OrderLoadBalancersByName :: "ClassicLoadBalancer \<Rightarrow> string" where
  "OrderLoadBalancersByName lb = StringValue (CLB_Name lb)"

text \<open>
  \<^verbatim>\<open>sort.Stable\<close> by a key is \<open>sort_key\<close>: elements with equal keys keep their
  order. \<^verbatim>\<open>Normalize\<close> sorts the two lists of the task in place.
\<close>

definition Normalize :: "ClassicLoadBalancer \<Rightarrow> ClassicLoadBalancer" where
  "Normalize e =
     e\<lparr> CLB_Subnets := sort_key OrderSubnetsById (CLB_Subnets e),
        CLB_SecurityGroups := sort_key OrderSecurityGroupsById (CLB_SecurityGroups e) \<rparr>"

definition ShouldCreate ::
  "ClassicLoadBalancer option \<Rightarrow> ClassicLoadBalancer \<Rightarrow> ClassicLoadBalancer
    \<Rightarrow> bool \<times> 'c error option" where
  "ShouldCreate a e changes = (if BoolValue (CLB_Shared e) then (False, None) else (True, None))"

definition ClassicLoadBalancer_CheckChanges ::
  "ClassicLoadBalancer option \<Rightarrow> ClassicLoadBalancer \<Rightarrow> ClassicLoadBalancer \<Rightarrow> 'c error option" where
  "ClassicLoadBalancer_CheckChanges a e changes =
     (if a = None then
        (if StringValue (CLB_Name e) = [] then Some (RequiredField ''Name'')
         else if \<not> BoolValue (CLB_Shared e) \<and> length (CLB_SecurityGroups e) = 0
           then Some (RequiredField ''SecurityGroups'')
         else if \<not> BoolValue (CLB_Shared e) \<and> length (CLB_Subnets e) = 0
           then Some (RequiredField ''Subnets'')
         else if (case CLB_AccessLog e of None \<Rightarrow> False | Some l \<Rightarrow> AL_Enabled l = None)
           then Some (RequiredField ''Acceslog.Enabled'')
         else if (case CLB_AccessLog e of None \<Rightarrow> False
                  | Some l \<Rightarrow> AL_Enabled l = Some True \<and> AL_S3BucketName l = None)
           then Some (RequiredField ''Acceslog.S3Bucket'')
         else if (case CLB_ConnectionDraining e of None \<Rightarrow> False | Some d \<Rightarrow> CD_Enabled d = None)
           then Some (RequiredField ''ConnectionDraining.Enabled'')
         else if (case CLB_CrossZoneLoadBalancing e of None \<Rightarrow> False | Some z \<Rightarrow> CZ_Enabled z = None)
           then Some (RequiredField ''CrossZoneLoadBalancing.Enabled'')
         else None)
      else None)"

text \<open>
  The \<^verbatim>\<open>elb.LoadBalancerDescription\<close> of the SDK, with the fields read here.
\<close>

record elb_LoadBalancerDescription =
  elb_LoadBalancerName :: "string option"
  elb_DNSName :: "string option"
  elb_CanonicalHostedZoneNameID :: "string option"

text \<open>
  \<^verbatim>\<open>describeLoadBalancers\<close>: \<open>pages\<close> is the answer of
  \<^verbatim>\<open>DescribeLoadBalancersPages\<close> for the request, either the SDK's error or the
  pages it passed to the callback. The callback keeps what passes the filter
  and always asks for the next page.
\<close>

fun describeLoadBalancers_page ::
  "(elb_LoadBalancerDescription \<Rightarrow> bool) \<Rightarrow> elb_LoadBalancerDescription list
    \<Rightarrow> elb_LoadBalancerDescription list \<Rightarrow> elb_LoadBalancerDescription list" where
  "describeLoadBalancers_page flt found [] = found"
| "describeLoadBalancers_page flt found (lb # lbs) =
     describeLoadBalancers_page flt (if flt lb then found @ [lb] else found) lbs"

definition describeLoadBalancers ::
  "('c + elb_LoadBalancerDescription list list) \<Rightarrow> (elb_LoadBalancerDescription \<Rightarrow> bool)
    \<Rightarrow> 'c error + elb_LoadBalancerDescription list" where
  "describeLoadBalancers pages flt =
     (case pages of
        Inl err \<Rightarrow> Inl (Errorf ''error listing ELBs: %v'' [ArgCloudError err])
      | Inr ps \<Rightarrow> Inr (foldl (describeLoadBalancers_page flt) [] ps))"

text \<open>
  \<^verbatim>\<open>findLoadBalancerByLoadBalancerName\<close>. \<open>awserr_Code\<close> is the type assertion
  \<^verbatim>\<open>err.(awserr.Error)\<close> followed by \<^verbatim>\<open>Code()\<close>: it gives the code of an error of
  the SDK and \<open>None\<close> for any other error value. Only an error handed up
  unchanged can be the SDK's; one built by \<^verbatim>\<open>fmt.Errorf\<close> is not.
\<close>

definition awserr_Code_of :: "('c \<Rightarrow> string option) \<Rightarrow> 'c error \<Rightarrow> string option" where
  "awserr_Code_of awserr_Code err = (case err of CloudError c \<Rightarrow> awserr_Code c | _ \<Rightarrow> None)"

definition findLoadBalancerByLoadBalancerName ::
  "('c \<Rightarrow> string option) \<Rightarrow> ('c + elb_LoadBalancerDescription list list) \<Rightarrow> string
    \<Rightarrow> 'c error + elb_LoadBalancerDescription option" where
  "findLoadBalancerByLoadBalancerName awserr_Code pages loadBalancerName =
     (case describeLoadBalancers pages
             (\<lambda>lb. StringValue (elb_LoadBalancerName lb) = loadBalancerName) of
        Inl err \<Rightarrow>
          (if awserr_Code_of awserr_Code err = Some ''LoadBalancerNotFound'' then Inr None
           else Inl (Errorf ''error listing ELBs: %v'' [ArgError err]))
      | Inr found \<Rightarrow>
          (if length found = 0 then Inr None
           else if length found \<noteq> 1 then
             Inl (Errorf ''Found multiple ELBs with name %q'' [ArgString loadBalancerName])
           else Inr (Some (hd found))))"


text \<open>
  The three renderers of the task. Each takes the target as it stands (for
  the AWS API target the cloud behind it, for the Terraform and CloudFormation
  targets the document written so far) and returns it as the call leaves it,
  with the error. A load balancer with \<^verbatim>\<open>Shared\<close> set returns nil before anything
  else is looked at, and one without a \<^verbatim>\<open>LoadBalancerName\<close> is refused before
  any call. What follows for a load balancer the cluster owns goes through
  collaborators that are not among the sources (the ELB client, the tag
  helpers, \<^verbatim>\<open>modifyLoadBalancerAttributes\<close>, the literals, \<^verbatim>\<open>RenderResource\<close>); it is
  the argument \<open>owned\<close>, a function of the same arguments that may issue any
  calls, emit any blocks and fail.
\<close>

definition ClassicLoadBalancer_RenderAWS ::
  "('t \<Rightarrow> ClassicLoadBalancer option \<Rightarrow> ClassicLoadBalancer \<Rightarrow> ClassicLoadBalancer
      \<Rightarrow> 't \<times> 'c error option)
    \<Rightarrow> 't \<Rightarrow> ClassicLoadBalancer option \<Rightarrow> ClassicLoadBalancer \<Rightarrow> ClassicLoadBalancer
    \<Rightarrow> 't \<times> 'c error option" where
  "ClassicLoadBalancer_RenderAWS owned t a e changes =
     (let shared = BoolValue (CLB_Shared e) in
      if shared then (t, None)
      else if a = None \<and> CLB_LoadBalancerName e = None
        then (t, Some (RequiredField ''LoadBalancerName''))
      else owned t a e changes)"

definition ClassicLoadBalancer_RenderTerraform ::
  "('t \<Rightarrow> ClassicLoadBalancer option \<Rightarrow> ClassicLoadBalancer \<Rightarrow> ClassicLoadBalancer
      \<Rightarrow> 't \<times> 'c error option)
    \<Rightarrow> 't \<Rightarrow> ClassicLoadBalancer option \<Rightarrow> ClassicLoadBalancer \<Rightarrow> ClassicLoadBalancer
    \<Rightarrow> 't \<times> 'c error option" where
  "ClassicLoadBalancer_RenderTerraform owned t a e changes =
     (let shared = BoolValue (CLB_Shared e) in
      if shared then (t, None)
      else if CLB_LoadBalancerName e = None
        then (t, Some (RequiredField ''LoadBalancerName''))
      else owned t a e changes)"

definition ClassicLoadBalancer_RenderCloudformation ::
  "('t \<Rightarrow> ClassicLoadBalancer option \<Rightarrow> ClassicLoadBalancer \<Rightarrow> ClassicLoadBalancer
      \<Rightarrow> 't \<times> 'c error option)
    \<Rightarrow> 't \<Rightarrow> ClassicLoadBalancer option \<Rightarrow> ClassicLoadBalancer \<Rightarrow> ClassicLoadBalancer
    \<Rightarrow> 't \<times> 'c error option" where
  "ClassicLoadBalancer_RenderCloudformation owned t a e changes =
     (let shared = BoolValue (CLB_Shared e) in
      if shared then (t, None)
      else if CLB_LoadBalancerName e = None
        then (t, Some (RequiredField ''LoadBalancerName''))
      else owned t a e changes)"


section \<open>awstasks: AutoscalingGroup\<close>

record LaunchTemplate =
  LT_Name :: "string option"
  LT_ID :: "string option"

record TargetGroup =
  TG_Name :: "string option"
  TG_ARN :: "string option"

text \<open>
  The task struct; \<open>'ir\<close> is the \<^verbatim>\<open>InstanceRequirements\<close> block.
  \<^verbatim>\<open>SuspendProcesses\<close> is a pointer to a slice.
\<close>

record 'ir AutoscalingGroup =
  ASG_Name :: "string option"
  ASG_Lifecycle :: Lifecycle
  ASG_Granularity :: "string option"
  ASG_InstanceProtection :: "bool option"
  ASG_LaunchTemplate :: "LaunchTemplate option"
  ASG_LoadBalancers :: "ClassicLoadBalancer list"
  ASG_MaxSize :: "64 word option"
  ASG_Metrics :: "string list"
  ASG_MinSize :: "64 word option"
  ASG_MixedInstanceOverrides :: "string list"
  ASG_InstanceRequirements :: "'ir option"
  ASG_MixedOnDemandAllocationStrategy :: "string option"
  ASG_MixedOnDemandBase :: "64 word option"
  ASG_MixedOnDemandAboveBase :: "64 word option"
  ASG_MixedSpotAllocationStrategy :: "string option"
  ASG_MixedSpotInstancePools :: "64 word option"
  ASG_MixedSpotMaxPrice :: "string option"
  ASG_Subnets :: "Subnet list"
  ASG_SuspendProcesses :: "string list option"
  ASG_Tags :: "string \<rightharpoonup> string"
  ASG_TargetGroups :: "TargetGroup list"

text \<open>
  The \<^verbatim>\<open>autoscaling.Group\<close> of the SDK, with the two fields
  \<^verbatim>\<open>findAutoscalingGroup\<close> reads; the record scheme leaves room for the rest.
\<close>

record autoscaling_Group =
  AutoScalingGroupName :: "string option"
  Status :: "string option"

text \<open>
  \<^verbatim>\<open>findAutoscalingGroup\<close>: \<open>pages\<close> is the answer of
  \<^verbatim>\<open>DescribeAutoScalingGroupsPages\<close>. The callback skips a group whose
  \<^verbatim>\<open>Status\<close> is set (delete in progress) and one with another name, and always
  asks for the next page.
\<close>

fun findAutoscalingGroup_page ::
  "string \<Rightarrow> 'a autoscaling_Group_scheme list \<Rightarrow> 'a autoscaling_Group_scheme list
    \<Rightarrow> 'a autoscaling_Group_scheme list" where
  "findAutoscalingGroup_page name found [] = found"
| "findAutoscalingGroup_page name found (g # gs) =
     (if Status g \<noteq> None then findAutoscalingGroup_page name found gs
      else if StringValue (AutoScalingGroupName g) = name
        then findAutoscalingGroup_page name (found @ [g]) gs
      else findAutoscalingGroup_page name found gs)"

definition findAutoscalingGroup ::
  "('c + 'a autoscaling_Group_scheme list list) \<Rightarrow> string
    \<Rightarrow> 'c error + 'a autoscaling_Group_scheme option" where
  "findAutoscalingGroup pages name =
     (case pages of
        Inl err \<Rightarrow> Inl (Errorf ''error listing AutoscalingGroups: %v'' [ArgCloudError err])
      | Inr ps \<Rightarrow>
          (case foldl (findAutoscalingGroup_page name) [] ps of
             [] \<Rightarrow> Inr None
           | [g] \<Rightarrow> Inr (Some g)
           | _ \<Rightarrow> Inl (Errorf ''found multiple AutoscalingGroups with name: %q'' [ArgString name])))"

text \<open>\<^verbatim>\<open>normalize\<close> sorts the metrics in place (\<^verbatim>\<open>sort.Strings\<close>) and returns nil.\<close>

definition normalize :: "'ir AutoscalingGroup \<Rightarrow> 'ir AutoscalingGroup \<times> 'c error option" where
  "normalize e = (e\<lparr>ASG_Metrics := sort (ASG_Metrics e)\<rparr>, None)"

definition AutoscalingGroup_CheckChanges ::
  "'ir AutoscalingGroup option \<Rightarrow> 'ir AutoscalingGroup \<Rightarrow> 'ir AutoscalingGroup \<Rightarrow> 'c error option" where
  "AutoscalingGroup_CheckChanges a ex changes =
     (if a \<noteq> None then
        (if ASG_Name ex = None then Some (RequiredField ''Name'') else None)
      else None)"

definition UseMixedInstancesPolicy :: "'ir AutoscalingGroup \<Rightarrow> bool" where
  "UseMixedInstancesPolicy e =
     (if ASG_LaunchTemplate e = None then False
      else if ASG_MixedOnDemandAboveBase e \<noteq> None then True
      else if ASG_MixedOnDemandBase e \<noteq> None then True
      else if ASG_MixedSpotAllocationStrategy e \<noteq> None then True
      else if ASG_MixedSpotInstancePools e \<noteq> None then True
      else if length (ASG_MixedInstanceOverrides e) > 0 then True
      else if ASG_MixedSpotMaxPrice e \<noteq> None then True
      else if ASG_InstanceRequirements e \<noteq> None then True
      else False)"

definition AutoscalingGroupSubnets :: "'ir AutoscalingGroup \<Rightarrow> string list" where
  "AutoscalingGroupSubnets e = map (\<lambda>x. StringValue (Subnet_ID x)) (ASG_Subnets e)"

text \<open>\<^verbatim>\<open>strings.Join\<close>.\<close>

fun Join :: "string list \<Rightarrow> string \<Rightarrow> string" where
  "Join [] sep = []"
| "Join [x] sep = x"
| "Join (x # y # ys) sep = x @ sep @ Join (y # ys) sep"


text \<open>
  The requests of the SDK that the creation path of \<^verbatim>\<open>RenderAWS\<close> builds.
  \<^verbatim>\<open>AutoscalingGroupTags\<close> ranges over the map of tags, in the order Go happens
  to give; its result is kept as that map together with what every tag of the
  list shares.
\<close>

record autoscaling_Tags =
  tag_ResourceId :: "string option"
  tag_ResourceType :: "string option"
  tag_PropagateAtLaunch :: "bool option"
  tag_KeyValue :: "string \<rightharpoonup> string"

definition AutoscalingGroupTags :: "'ir AutoscalingGroup \<Rightarrow> autoscaling_Tags" where
  "AutoscalingGroupTags e =
     \<lparr> tag_ResourceId = ASG_Name e,
       tag_ResourceType = Some ''auto-scaling-group'',
       tag_PropagateAtLaunch = Some True,
       tag_KeyValue = ASG_Tags e \<rparr>"

record LaunchTemplateSpecification =
  LaunchTemplateId :: "string option"
  Version :: "string option"

record InstancesDistribution =
  OnDemandPercentageAboveBaseCapacity :: "64 word option"
  OnDemandBaseCapacity :: "64 word option"
  SpotAllocationStrategy :: "string option"
  SpotInstancePools :: "64 word option"
  SpotMaxPrice :: "string option"

text \<open>
  An override is an instance type, or what \<^verbatim>\<open>overridesFromInstanceRequirements\<close>
  makes of the requirements block.
\<close>

datatype 'ir LaunchTemplateOverrides =
    InstanceType "string option"
  | overridesFromInstanceRequirements 'ir

record 'ir MixedInstancesPolicy =
  mip_InstancesDistribution :: InstancesDistribution
  mip_LaunchTemplateSpecification :: LaunchTemplateSpecification
  mip_Overrides :: "'ir LaunchTemplateOverrides list"

record 'ir CreateAutoScalingGroupInput =
  req_AutoScalingGroupName :: "string option"
  req_MinSize :: "64 word option"
  req_MaxSize :: "64 word option"
  req_NewInstancesProtectedFromScaleIn :: "bool option"
  req_Tags :: autoscaling_Tags
  req_VPCZoneIdentifier :: "string option"
  req_LoadBalancerNames :: "string option list"
  req_TargetGroupARNs :: "string option list"
  req_MixedInstancesPolicy :: "'ir MixedInstancesPolicy option"
  req_LaunchTemplate :: "LaunchTemplateSpecification option"

record EnableMetricsCollectionInput =
  emc_AutoScalingGroupName :: "string option"
  emc_Granularity :: "string option"
  emc_Metrics :: "string list"

record ScalingProcessQuery =
  spq_AutoScalingGroupName :: "string option"
  spq_ScalingProcesses :: "string list"

text \<open>The calls the creation path makes on the cloud, with their requests.\<close>

datatype 'ir autoscaling_call =
    Call_FindELBByNameTag string
  | Call_CreateAutoScalingGroup "'ir CreateAutoScalingGroupInput"
  | Call_EnableMetricsCollection EnableMetricsCollectionInput
  | Call_SuspendProcesses ScalingProcessQuery

text \<open>
  The cloud of the AWS API target, as the creation path uses it. Every call
  is answered as a function of the calls made before it and of its request;
  \<open>Some err\<close> and \<open>Inl err\<close> are the SDK's error. \<open>AWSErrorCode\<close> and
  \<open>AWSErrorMessage\<close> are the helpers of package awsup that read the code and the
  message of such an error.
\<close>

record ('c, 'ir) AWSCloud =
  FindELBByNameTag :: "'ir autoscaling_call list \<Rightarrow> string \<Rightarrow> 'c + elb_LoadBalancerDescription option"
  CreateAutoScalingGroup :: "'ir autoscaling_call list \<Rightarrow> 'ir CreateAutoScalingGroupInput \<Rightarrow> 'c option"
  EnableMetricsCollection :: "'ir autoscaling_call list \<Rightarrow> EnableMetricsCollectionInput \<Rightarrow> 'c option"
  SuspendProcesses :: "'ir autoscaling_call list \<Rightarrow> ScalingProcessQuery \<Rightarrow> 'c option"
  AWSErrorCode :: "'c \<Rightarrow> string"
  AWSErrorMessage :: "'c \<Rightarrow> string"

text \<open>
  The loop over \<^verbatim>\<open>e.LoadBalancers\<close>: a load balancer without a
  \<^verbatim>\<open>LoadBalancerName\<close> is looked up by its name tag (\<^verbatim>\<open>GetName\<close> gives the task's
  \<^verbatim>\<open>Name\<close>). \<open>h\<close> is the calls made so far, \<open>names\<close> the
  \<^verbatim>\<open>request.LoadBalancerNames\<close> gathered so far.
\<close>

fun LoadBalancerNames_loop ::
  "('c, 'ir) AWSCloud \<Rightarrow> 'ir autoscaling_call list \<Rightarrow> string option list
    \<Rightarrow> ClassicLoadBalancer list
    \<Rightarrow> 'ir autoscaling_call list \<times> ('c error + string option list)" where
  "LoadBalancerNames_loop cloud h names [] = (h, Inr names)"
| "LoadBalancerNames_loop cloud h names (k # ks) =
     (if CLB_LoadBalancerName k = None then
        (case FindELBByNameTag cloud h (StringValue (CLB_Name k)) of
           Inl err \<Rightarrow> (h @ [Call_FindELBByNameTag (StringValue (CLB_Name k))], Inl (CloudError err))
         | Inr None \<Rightarrow>
             (h @ [Call_FindELBByNameTag (StringValue (CLB_Name k))],
              Inl (Errorf ''could not find load balancer to attach'' []))
         | Inr (Some lbDesc) \<Rightarrow>
             LoadBalancerNames_loop cloud
               (h @ [Call_FindELBByNameTag (StringValue (CLB_Name k))])
               (names @ [elb_LoadBalancerName lbDesc]) ks)
      else LoadBalancerNames_loop cloud h (names @ [CLB_LoadBalancerName k]) ks)"

text \<open>A run-time panic of Go: reading through a nil pointer.\<close>

datatype panic = NilPointerDereference

text \<open>
  The creation path up to the call of \<^verbatim>\<open>CreateAutoScalingGroup\<close>: the request
  it has built, or the error it returned before. \<open>v\<close> is the receiver, \<open>e\<close>
  the desired task.
\<close>

definition CreateAutoScalingGroup_request ::
  "('c, 'ir) AWSCloud \<Rightarrow> 'ir autoscaling_call list \<Rightarrow> 'ir AutoscalingGroup \<Rightarrow> 'ir AutoscalingGroup
    \<Rightarrow> 'ir autoscaling_call list \<times> ((panic + 'c error) + 'ir CreateAutoScalingGroupInput)" where
  "CreateAutoScalingGroup_request cloud h v e =
     (case LoadBalancerNames_loop cloud h [] (ASG_LoadBalancers e) of
        (h1, Inl err) \<Rightarrow> (h1, Inl (Inr err))
      | (h1, Inr names) \<Rightarrow>
          (let request =
                 \<lparr> req_AutoScalingGroupName = ASG_Name e,
                   req_MinSize = ASG_MinSize e,
                   req_MaxSize = ASG_MaxSize e,
                   req_NewInstancesProtectedFromScaleIn = ASG_InstanceProtection e,
                   req_Tags = AutoscalingGroupTags v,
                   req_VPCZoneIdentifier = Some (Join (AutoscalingGroupSubnets e) '',''),
                   req_LoadBalancerNames = names,
                   req_TargetGroupARNs = map TG_ARN (ASG_TargetGroups e),
                   req_MixedInstancesPolicy = None,
                   req_LaunchTemplate = None \<rparr>
           in
           if UseMixedInstancesPolicy e then
             (case ASG_LaunchTemplate e of
                None \<Rightarrow> (h1, Inl (Inl NilPointerDereference))
              | Some lt \<Rightarrow>
                  (h1, Inr (request\<lparr> req_MixedInstancesPolicy :=
                     Some \<lparr> mip_InstancesDistribution =
                              \<lparr> OnDemandPercentageAboveBaseCapacity = ASG_MixedOnDemandAboveBase e,
                                OnDemandBaseCapacity = ASG_MixedOnDemandBase e,
                                SpotAllocationStrategy = ASG_MixedSpotAllocationStrategy e,
                                SpotInstancePools = ASG_MixedSpotInstancePools e,
                                SpotMaxPrice = ASG_MixedSpotMaxPrice e \<rparr>,
                            mip_LaunchTemplateSpecification =
                              \<lparr> LaunchTemplateId = LT_ID lt, Version = Some ''$Latest'' \<rparr>,
                            mip_Overrides =
                              map (\<lambda>x. InstanceType (Some x)) (ASG_MixedInstanceOverrides e)
                              @ (case ASG_InstanceRequirements e of
                                   None \<Rightarrow> []
                                 | Some ir \<Rightarrow> [overridesFromInstanceRequirements ir]) \<rparr> \<rparr>)))
           else
             (case ASG_LaunchTemplate e of
                Some lt \<Rightarrow>
                  (h1, Inr (request\<lparr> req_LaunchTemplate :=
                     Some \<lparr> LaunchTemplateId = LT_ID lt, Version = Some ''$Latest'' \<rparr> \<rparr>))
              | None \<Rightarrow>
                  (h1, Inl (Inr (Errorf
                     ''could not find one of launch template or mixed instances policy'' []))))))"

text \<open>
  \<^verbatim>\<open>RenderAWS\<close> on the creation path (\<^verbatim>\<open>a == nil\<close>): the calls made, and either
  the panic that ended it or the error it returned (\<open>None\<close> is nil). The loop
  that gathers \<^verbatim>\<open>toSuspend\<close> takes the address of its loop variable, one
  variable for the whole loop in the Go of this code (before 1.22), so every
  entry of the query is the last process of the list.
\<close>

definition AutoscalingGroup_RenderAWS_create ::
  "('c, 'ir) AWSCloud \<Rightarrow> 'ir autoscaling_call list \<Rightarrow> 'ir AutoscalingGroup \<Rightarrow> 'ir AutoscalingGroup
    \<Rightarrow> 'ir autoscaling_call list \<times> (panic + 'c error option)" where
  "AutoscalingGroup_RenderAWS_create cloud h v e =
     (case CreateAutoScalingGroup_request cloud h v e of
        (h1, Inl (Inl p)) \<Rightarrow> (h1, Inl p)
      | (h1, Inl (Inr err)) \<Rightarrow> (h1, Inr (Some err))
      | (h1, Inr request) \<Rightarrow>
          (let h2 = h1 @ [Call_CreateAutoScalingGroup request] in
           case CreateAutoScalingGroup cloud h1 request of
             Some err \<Rightarrow>
               (let code = AWSErrorCode cloud err;
                    message = AWSErrorMessage cloud err
                in if code = ''ValidationError''
                      \<and> Contains message ''Invalid IAM Instance Profile name''
                   then (h2, Inr (Some (TryAgainLaterError
                           ''waiting for the IAM Instance Profile to be propagated'')))
                   else (h2, Inr (Some (Errorf ''error creating AutoScalingGroup: %s''
                           [ArgString message]))))
           | None \<Rightarrow>
               (let metrics = \<lparr> emc_AutoScalingGroupName = ASG_Name e,
                                emc_Granularity = ASG_Granularity e,
                                emc_Metrics = ASG_Metrics e \<rparr>;
                    h3 = h2 @ [Call_EnableMetricsCollection metrics]
                in case EnableMetricsCollection cloud h2 metrics of
                     Some err \<Rightarrow>
                       (h3, Inr (Some (Errorf
                          ''error enabling metrics collection for AutoscalingGroup: %v''
                          [ArgCloudError err])))
                   | None \<Rightarrow>
                       (case ASG_SuspendProcesses e of
                          None \<Rightarrow> (h3, Inl NilPointerDereference)
                        | Some ps \<Rightarrow>
                            if length ps > 0 then
                              (let processQuery =
                                     \<lparr> spq_AutoScalingGroupName = ASG_Name e,
                                       spq_ScalingProcesses = replicate (length ps) (last ps) \<rparr>
                               in case SuspendProcesses cloud h3 processQuery of
                                    Some err \<Rightarrow>
                                      (h3 @ [Call_SuspendProcesses processQuery],
                                       Inr (Some (Errorf ''error suspending processes: %v''
                                          [ArgCloudError err])))
                                  | None \<Rightarrow> (h3 @ [Call_SuspendProcesses processQuery], Inr None))
                            else (h3, Inr None)))))"

text \<open>
  Modelled from the spec: how the scheduler reads an error is not among the
  sources. "TryAgainLater(reason): a retryable signal, not a failure"; "all
  other errors from Find/Render are treated as fatal for that task".
\<close>

fun retryable :: "'c error \<Rightarrow> bool" where
  "retryable (TryAgainLaterError reason) = True"
| "retryable err = False"


section \<open>The per-task run\<close>

text \<open>
  Modelled from the spec: \<^verbatim>\<open>fi.DefaultDeltaRunMethod\<close>, which every \<^verbatim>\<open>Run\<close> above
  calls, is not among the sources. The scheduler runs "Find (observe),
  computing Changes (diff), calling CheckChanges (validate)" and "on success,
  Render is dispatched"; "a task transitions to failed if Find, CheckChanges,
  or Render returns a non-retryable error". \<open>t\<close> is the target, the only
  thing a task may change.
\<close>

datatype 'c terminal = Rendered | Failed "'c error"

definition run_task ::
  "('task \<Rightarrow> 'c error + 'task option)
    \<Rightarrow> ('task option \<Rightarrow> 'task \<Rightarrow> 'chg)
    \<Rightarrow> ('task option \<Rightarrow> 'task \<Rightarrow> 'chg \<Rightarrow> 'c error option)
    \<Rightarrow> ('t \<Rightarrow> 'task option \<Rightarrow> 'task \<Rightarrow> 'chg \<Rightarrow> 't \<times> 'c error option)
    \<Rightarrow> 't \<Rightarrow> 'task \<Rightarrow> 't \<times> 'c terminal" where
  "run_task Find Diff CheckChanges Render t e =
     (case Find e of
        Inl err \<Rightarrow> (t, Failed err)
      | Inr a \<Rightarrow>
          (let changes = Diff a e in
           case CheckChanges a e changes of
             Some err \<Rightarrow> (t, Failed err)
           | None \<Rightarrow>
               (case Render t a e changes of
                  (t', Some err) \<Rightarrow> (t', Failed err)
                | (t', None) \<Rightarrow> (t', Rendered))))"


section \<open>The diff and the targets\<close>

text \<open>
  Modelled from the spec: \<^verbatim>\<open>BuildChanges\<close> and the \<^verbatim>\<open>Render\<close> of the targets
  belong to package fi and are not among the sources; only the test
  \<^verbatim>\<open>Test_DryrunTarget_PrintReport\<close>, which calls them, is. A task is "identified
  by a stable name" and "holds declared attributes: scalars, nested value
  objects, and references to other Tasks (by identity, not by value)";
  "attributes use optional wrappers", so an attribute may be unset.
\<close>

datatype attribute =
    Scalar string
  | Object "(string \<times> attribute) list"
  | Reference string

record Task =
  Task_Name :: string
  Task_Attributes :: "(string \<times> attribute option) list"

text \<open>
  Modelled from the spec: a Changes value is "shaped like a Task but with only
  the fields that differ between observed and desired populated; all other
  fields carry a sentinel unchanged marker (not merely a zero value)".
\<close>

datatype change = Unchanged | Changed "attribute option"

text \<open>
  Modelled from the spec: the diff "computes Changes by pairwise comparing
  every declared attribute of observed vs. desired using semantic equality
  (value equality for scalars; deep equality for nested value objects;
  identity equality, i.e. same referenced name, for Task references)", which
  is equality of \<open>attribute\<close>. When nothing was observed every attribute of the
  desired task differs.
\<close>

definition BuildChanges :: "Task option \<Rightarrow> Task \<Rightarrow> (string \<times> change) list" where
  "BuildChanges a e =
     (case a of
        None \<Rightarrow> map (\<lambda>(f, v). (f, Changed v)) (Task_Attributes e)
      | Some a' \<Rightarrow>
          map (\<lambda>((fa, va), (f, v)). (f, if va = v then Unchanged else Changed v))
              (zip (Task_Attributes a') (Task_Attributes e)))"

definition all_unchanged :: "(string \<times> change) list \<Rightarrow> bool" where
  "all_unchanged changes = list_all (\<lambda>(f, c). c = Unchanged) changes"

text \<open>The populated fields of a Changes value, with their new values.\<close>

fun populated :: "(string \<times> change) list \<Rightarrow> (string \<times> attribute option) list" where
  "populated [] = []"
| "populated ((f, Unchanged) # cs) = populated cs"
| "populated ((f, Changed v) # cs) = (f, v) # populated cs"

text \<open>
  Modelled from the spec: a Target "is the only entity permitted to produce
  side effects" and "owns an output sink (API call log, generated document
  buffer, human-readable plan text)". The live target "issues the minimal set
  of cloud API calls to move observed to desired"; the plan target "performs
  no mutation" and "accumulates a human-readable report of field-level
  changes per task", a list of "(task name, field name, old value, new value)
  tuples"; the document target "accumulates resource blocks". A task "becomes
  rendered (no mutation performed) if the computed Changes is entirely
  unchanged".
\<close>

datatype target_kind = LiveApply | DryRun | DocumentEmit

record Target =
  Target_Kind :: target_kind
  api_calls :: "(string \<times> (string \<times> attribute option) list) list"
  document :: "(string \<times> (string \<times> attribute option) list) list"
  report :: "(string \<times> string \<times> attribute option option \<times> attribute option) list"

definition old_value :: "Task option \<Rightarrow> string \<Rightarrow> attribute option option" where
  "old_value a f = (case a of None \<Rightarrow> None | Some a' \<Rightarrow> map_of (Task_Attributes a') f)"

definition Render ::
  "Target \<Rightarrow> Task option \<Rightarrow> Task \<Rightarrow> (string \<times> change) list \<Rightarrow> Target \<times> unit error option" where
  "Render t a e changes =
     (case Target_Kind t of
        LiveApply \<Rightarrow>
          (if populated changes = [] then (t, None)
           else (t\<lparr>api_calls := api_calls t @ [(Task_Name e, populated changes)]\<rparr>, None))
      | DryRun \<Rightarrow>
          (t\<lparr>report := report t
                @ map (\<lambda>(f, v). (Task_Name e, f, old_value a f, v)) (populated changes)\<rparr>, None)
      | DocumentEmit \<Rightarrow>
          (if populated changes = [] then (t, None)
           else (t\<lparr>document := document t @ [(Task_Name e, Task_Attributes e)]\<rparr>, None)))"


section \<open>Concrete inputs\<close>

text \<open>Two ServerGroup values used as concrete inputs below.\<close>

definition sg0 :: ServerGroup where
  "sg0 = \<lparr> SG_ID = None, SG_Name = Some ''g'', SG_ClusterName = None, SG_IGName = None,
           SG_Policies = [], SG_MaxSize = None, SG_Lifecycle = ''Sync'',
           members = [], gotMemberList = False \<rparr>"

definition sg1 :: ServerGroup where
  "sg1 = \<lparr> SG_ID = None, SG_Name = Some ''g'', SG_ClusterName = None, SG_IGName = None,
           SG_Policies = [], SG_MaxSize = None, SG_Lifecycle = ''Sync'',
           members = [''a''], gotMemberList = False \<rparr>"

text \<open>Listings of the compute API used as concrete inputs below.\<close>

definition osg1 :: OSServerGroup where
  "osg1 = \<lparr> osID = ''id1'', osName = ''g'', osPolicies = [], osMembers = [''m1''] \<rparr>"

definition osg2 :: OSServerGroup where
  "osg2 = \<lparr> osID = ''id2'', osName = ''g'', osPolicies = [], osMembers = [] \<rparr>"

definition osg3 :: OSServerGroup where
  "osg3 = \<lparr> osID = ''id3'', osName = ''h'', osPolicies = [], osMembers = [] \<rparr>"

definition os_cloud :: "OSServerGroup list \<Rightarrow> (string, OSServerGroup list) OpenstackCloud" where
  "os_cloud gs = \<lparr> ListAllPages = Inr gs, ExtractServerGroups = Inr \<rparr>"

text \<open>Hetzner load balancers and deltas used as concrete inputs below.\<close>

definition lb_a :: "unit LoadBalancer" where
  "lb_a = \<lparr> LB_Name = Some ''x'', LB_Lifecycle = ''Sync'', LB_Network = None, LB_ID = Some 1,
            LB_Location = ''fsn1'', LB_Type = ''lb11'',
            LB_Services = [\<lparr>Protocol = ''tcp'', ListenerPort = Some 443, DestinationPort = Some 443\<rparr>],
            LB_Target = ''sel'', LB_Labels = Map.empty \<rparr>"

definition lb_e :: "unit LoadBalancer" where
  "lb_e = \<lparr> LB_Name = Some ''y'', LB_Lifecycle = ''Sync'', LB_Network = None, LB_ID = Some 2,
            LB_Location = ''fsn1'', LB_Type = ''lb11'',
            LB_Services = [\<lparr>Protocol = ''tcp'', ListenerPort = Some 443, DestinationPort = Some 443\<rparr>],
            LB_Target = ''sel'', LB_Labels = Map.empty \<rparr>"

definition lb_changes_name_id :: "unit LoadBalancer" where
  "lb_changes_name_id =
     \<lparr> LB_Name = Some ''y'', LB_Lifecycle = [], LB_Network = None, LB_ID = Some 2,
       LB_Location = [], LB_Type = [], LB_Services = [], LB_Target = [], LB_Labels = Map.empty \<rparr>"

definition lb_changes_id :: "unit LoadBalancer" where
  "lb_changes_id =
     \<lparr> LB_Name = None, LB_Lifecycle = [], LB_Network = None, LB_ID = Some 2,
       LB_Location = [], LB_Type = [], LB_Services = [], LB_Target = [], LB_Labels = Map.empty \<rparr>"

definition lb_changes_services :: "unit LoadBalancer" where
  "lb_changes_services =
     \<lparr> LB_Name = None, LB_Lifecycle = [], LB_Network = None, LB_ID = None,
       LB_Location = [], LB_Type = [],
       LB_Services = [\<lparr>Protocol = ''tcp'', ListenerPort = Some 6443, DestinationPort = Some 6443\<rparr>],
       LB_Target = [], LB_Labels = Map.empty \<rparr>"

definition hlb1 :: hcloud_LoadBalancer where
  "hlb1 = \<lparr> h_ID = 7, h_Name = ''other'', h_Labels = Map.empty, h_Location = None,
             h_LoadBalancerType = None, h_Services = [], h_Targets = [] \<rparr>"

definition hcloud1 :: "string HetznerCloud" where
  "hcloud1 = \<lparr> All = Inr [hlb1] \<rparr>"

text \<open>Groups and load balancers of the AWS SDK used as concrete inputs below.\<close>

definition asg_g1 :: autoscaling_Group where
  "asg_g1 = \<lparr> AutoScalingGroupName = Some ''nodes'', Status = None \<rparr>"

definition elb_d1 :: elb_LoadBalancerDescription where
  "elb_d1 = \<lparr> elb_LoadBalancerName = Some ''api'', elb_DNSName = Some ''a.example'',
              elb_CanonicalHostedZoneNameID = None \<rparr>"

definition elb_d2 :: elb_LoadBalancerDescription where
  "elb_d2 = \<lparr> elb_LoadBalancerName = Some ''api'', elb_DNSName = Some ''b.example'',
              elb_CanonicalHostedZoneNameID = None \<rparr>"


definition sg_changes_id :: ServerGroup where
  "sg_changes_id = \<lparr> SG_ID = Some ''y'', SG_Name = None, SG_ClusterName = None, SG_IGName = None,
           SG_Policies = [], SG_MaxSize = None, SG_Lifecycle = [],
           members = [], gotMemberList = False \<rparr>"

definition asg_unnamed :: "unit AutoscalingGroup" where
  "asg_unnamed =
     \<lparr> ASG_Name = None, ASG_Lifecycle = ''Sync'', ASG_Granularity = None,
       ASG_InstanceProtection = None, ASG_LaunchTemplate = None, ASG_LoadBalancers = [],
       ASG_MaxSize = Some 1, ASG_Metrics = [], ASG_MinSize = Some 1,
       ASG_MixedInstanceOverrides = [], ASG_InstanceRequirements = None,
       ASG_MixedOnDemandAllocationStrategy = None, ASG_MixedOnDemandBase = None,
       ASG_MixedOnDemandAboveBase = None, ASG_MixedSpotAllocationStrategy = None,
       ASG_MixedSpotInstancePools = None, ASG_MixedSpotMaxPrice = None, ASG_Subnets = [],
       ASG_SuspendProcesses = Some [], ASG_Tags = Map.empty, ASG_TargetGroups = [] \<rparr>"

text \<open>Subnets, security groups and load balancers used as concrete inputs below.\<close>

definition subnet_a :: Subnet where
  "subnet_a = \<lparr> Subnet_Name = Some ''a'', Subnet_ID = None \<rparr>"

definition subnet_b :: Subnet where
  "subnet_b = \<lparr> Subnet_Name = Some ''b'', Subnet_ID = None \<rparr>"

definition subnet_1 :: Subnet where
  "subnet_1 = \<lparr> Subnet_Name = Some ''a'', Subnet_ID = Some ''subnet-1'' \<rparr>"

definition subnet_2 :: Subnet where
  "subnet_2 = \<lparr> Subnet_Name = Some ''b'', Subnet_ID = Some ''subnet-2'' \<rparr>"

definition sgroup_1 :: SecurityGroup where
  "sgroup_1 = \<lparr> SecurityGroup_Name = Some ''api'', SecurityGroup_ID = Some ''sg-1'' \<rparr>"

definition clb :: "Subnet list \<Rightarrow> bool option \<Rightarrow> ClassicLoadBalancer" where
  "clb subnets shared =
     \<lparr> CLB_Name = Some ''api.example.com'', CLB_Lifecycle = ''Sync'',
       CLB_LoadBalancerName = Some ''api-example-com'', CLB_DNSName = None,
       CLB_HostedZoneId = None, CLB_Subnets = subnets, CLB_SecurityGroups = [sgroup_1],
       CLB_Listeners = Map.empty, CLB_Scheme = None, CLB_HealthCheck = None,
       CLB_AccessLog = None, CLB_ConnectionDraining = None, CLB_ConnectionSettings = None,
       CLB_CrossZoneLoadBalancing = None, CLB_SSLCertificateID = [], CLB_Tags = Map.empty,
       CLB_ForAPIServer = True, CLB_Shared = shared \<rparr>"

text \<open>An autoscaling group and a cloud used as concrete inputs below.\<close>

definition asg_nodes :: "string list \<Rightarrow> unit AutoscalingGroup" where
  "asg_nodes metrics =
     \<lparr> ASG_Name = Some ''nodes'', ASG_Lifecycle = ''Sync'', ASG_Granularity = Some ''1Minute'',
       ASG_InstanceProtection = None,
       ASG_LaunchTemplate = Some \<lparr> LT_Name = Some ''nodes'', LT_ID = Some ''lt-1'' \<rparr>,
       ASG_LoadBalancers = [],
       ASG_MaxSize = Some 2, ASG_Metrics = metrics, ASG_MinSize = Some 1,
       ASG_MixedInstanceOverrides = [], ASG_InstanceRequirements = None,
       ASG_MixedOnDemandAllocationStrategy = None, ASG_MixedOnDemandBase = None,
       ASG_MixedOnDemandAboveBase = None, ASG_MixedSpotAllocationStrategy = None,
       ASG_MixedSpotInstancePools = None, ASG_MixedSpotMaxPrice = None, ASG_Subnets = [],
       ASG_SuspendProcesses = Some [], ASG_Tags = Map.empty, ASG_TargetGroups = [] \<rparr>"

definition aws_cloud :: "(string \<times> string) option \<Rightarrow> (string \<times> string, unit) AWSCloud" where
  "aws_cloud create_answer =
     \<lparr> FindELBByNameTag = (\<lambda>h n. Inr None),
       CreateAutoScalingGroup = (\<lambda>h request. create_answer),
       EnableMetricsCollection = (\<lambda>h request. None),
       SuspendProcesses = (\<lambda>h request. None),
       AWSErrorCode = fst,
       AWSErrorMessage = snd \<rparr>"

definition asg_nodes_request :: "unit CreateAutoScalingGroupInput" where
  "asg_nodes_request =
     \<lparr> req_AutoScalingGroupName = Some ''nodes'', req_MinSize = Some 1, req_MaxSize = Some 2,
       req_NewInstancesProtectedFromScaleIn = None,
       req_Tags = \<lparr> tag_ResourceId = Some ''nodes'', tag_ResourceType = Some ''auto-scaling-group'',
                    tag_PropagateAtLaunch = Some True, tag_KeyValue = Map.empty \<rparr>,
       req_VPCZoneIdentifier = Some [], req_LoadBalancerNames = [], req_TargetGroupARNs = [],
       req_MixedInstancesPolicy = None,
       req_LaunchTemplate = Some \<lparr> LaunchTemplateId = Some ''lt-1'', Version = Some ''$Latest'' \<rparr> \<rparr>"

text \<open>The task of \<^verbatim>\<open>Test_DryrunTarget_PrintReport\<close> (name, lifecycle, tags).\<close>

definition testTask :: Task where
  "testTask =
     \<lparr> Task_Name = ''TestName'',
       Task_Attributes =
         [(''Name'', Some (Scalar ''TestName'')),
          (''Lifecycle'', Some (Scalar ''Sync'')),
          (''Tags'', Some (Object [(''key'', Scalar ''value'')]))] \<rparr>"


section \<open>Verified properties\<close>

subsection \<open>ServerGroup: the member list is final once read\<close>

lemma run_calls_Get:
  "run_calls (CallGetMembers # cs) s =
     (case run_calls cs (s\<lparr>gotMemberList := True\<rparr>) of
        Inl f \<Rightarrow> Inl f
      | Inr (s'', rs) \<Rightarrow> Inr (s'', members s # rs))"
  by (simp add: GetMembers_def)

lemma run_calls_Add:
  "run_calls (CallAddNewMember m # cs) s =
     (if gotMemberList s
      then Inl (Fatalf ''attempt to add member %q after member list already returned'' m)
      else run_calls cs (s\<lparr>members := members s @ [m]\<rparr>))"
  by (simp add: AddNewMember_def)

lemma run_calls_append:
  "run_calls (cs1 @ cs2) s =
     (case run_calls cs1 s of
        Inl f \<Rightarrow> Inl f
      | Inr (s1, rs1) \<Rightarrow>
          (case run_calls cs2 s1 of
             Inl f \<Rightarrow> Inl f
           | Inr (s2, rs2) \<Rightarrow> Inr (s2, rs1 @ rs2)))"
proof (induction cs1 arbitrary: s)
  case Nil
  show ?case by (simp split: sum.splits)
next
  case (Cons c cs)
  show ?case
  proof (cases c)
    case (CallAddNewMember m)
    then show ?thesis
      by (simp only: append_Cons run_calls_Add Cons.IH) (simp split: sum.splits)
  next
    case CallGetMembers
    then show ?thesis
      by (simp only: append_Cons run_calls_Get Cons.IH) (simp split: sum.splits prod.splits)
  qed
qed

lemma run_calls_finalized:
  "gotMemberList s \<Longrightarrow> run_calls cs s = Inr (s', rs) \<Longrightarrow>
     members s' = members s \<and> gotMemberList s' \<and> (\<forall>m. CallAddNewMember m \<notin> set cs)
       \<and> (\<forall>r \<in> set rs. r = members s)"
proof (induction cs arbitrary: s rs)
  case Nil
  then show ?case by simp
next
  case (Cons c cs)
  show ?case
  proof (cases c)
    case (CallAddNewMember m)
    with Cons.prems show ?thesis by (simp add: AddNewMember_def)
  next
    case CallGetMembers
    let ?s2 = "s\<lparr>gotMemberList := True\<rparr>"
    from Cons.prems CallGetMembers obtain rs2 where
      r2: "run_calls cs ?s2 = Inr (s', rs2)" and rs: "rs = members s # rs2"
      by (auto simp only: run_calls_Get split: sum.splits prod.splits)
    have "gotMemberList ?s2" by simp
    from Cons.IH [OF this r2] show ?thesis
      using CallGetMembers rs by simp
  qed
qed

lemma run_calls_add_faults:
  assumes "gotMemberList s" and "CallAddNewMember m \<in> set cs"
  shows "\<exists>f. run_calls cs s = Inl f"
proof (cases "run_calls cs s")
  case (Inl f)
  then show ?thesis by blast
next
  case (Inr p)
  obtain s' rs where "p = (s', rs)" by (cases p)
  with Inr run_calls_finalized [OF assms(1), of cs s' rs] assms(2)
  show ?thesis by simp
qed


text \<open>
  Claim C8. Take any sequence of \<^verbatim>\<open>AddNewMember\<close> and \<^verbatim>\<open>GetMembers\<close> calls that has
  run without the fatal exit and reached the task \<open>s1\<close>, and let \<^verbatim>\<open>GetMembers\<close> be
  called next. Then every \<^verbatim>\<open>AddNewMember\<close> on the task it leaves is the fatal exit
  and appends nothing; every continuation that holds an \<^verbatim>\<open>AddNewMember\<close> ends in
  the fatal exit; and every continuation that completes leaves the member list
  equal to the slice that \<^verbatim>\<open>GetMembers\<close> returned, as is every slice handed out
  from then on.
\<close>

theorem ServerGroup_members_final_once_read:
  assumes "run_calls cs1 s = Inr (s1, rs1)"
  shows "(\<forall>m. AddNewMember m (snd (GetMembers s1)) =
              Inl (Fatalf ''attempt to add member %q after member list already returned'' m))
       \<and> ((\<exists>m. CallAddNewMember m \<in> set cs2) \<longrightarrow>
            (\<exists>f. run_calls (cs1 @ CallGetMembers # cs2) s = Inl f))
       \<and> (\<forall>s' rs. run_calls (cs1 @ CallGetMembers # cs2) s = Inr (s', rs) \<longrightarrow>
            members s' = fst (GetMembers s1)
              \<and> (\<forall>r \<in> set (drop (length rs1) rs). r = fst (GetMembers s1)))"
proof -
  let ?s2 = "s1\<lparr>gotMemberList := True\<rparr>"
  have whole: "run_calls (cs1 @ CallGetMembers # cs2) s =
      (case run_calls cs2 ?s2 of
         Inl f \<Rightarrow> Inl f
       | Inr (s'', rs2) \<Rightarrow> Inr (s'', rs1 @ members s1 # rs2))"
    by (simp only: run_calls_append assms run_calls_Get) (simp split: sum.splits)
  have flag: "gotMemberList ?s2" by simp
  have A: "\<forall>m. AddNewMember m (snd (GetMembers s1)) =
              Inl (Fatalf ''attempt to add member %q after member list already returned'' m)"
    by (simp add: AddNewMember_def GetMembers_def)
  have B: "(\<exists>m. CallAddNewMember m \<in> set cs2) \<longrightarrow>
            (\<exists>f. run_calls (cs1 @ CallGetMembers # cs2) s = Inl f)"
  proof
    assume "\<exists>m. CallAddNewMember m \<in> set cs2"
    then obtain m where "CallAddNewMember m \<in> set cs2" ..
    from run_calls_add_faults [OF flag this] obtain f where "run_calls cs2 ?s2 = Inl f" ..
    then show "\<exists>f. run_calls (cs1 @ CallGetMembers # cs2) s = Inl f"
      by (simp add: whole)
  qed
  have C: "\<forall>s' rs. run_calls (cs1 @ CallGetMembers # cs2) s = Inr (s', rs) \<longrightarrow>
            members s' = fst (GetMembers s1)
              \<and> (\<forall>r \<in> set (drop (length rs1) rs). r = fst (GetMembers s1))"
  proof (intro allI impI)
    fix s' rs
    assume "run_calls (cs1 @ CallGetMembers # cs2) s = Inr (s', rs)"
    then obtain rs2 where
      r2: "run_calls cs2 ?s2 = Inr (s', rs2)" and rs: "rs = rs1 @ members s1 # rs2"
      by (auto simp: whole split: sum.splits prod.splits)
    from run_calls_finalized [OF flag r2]
    have "members s' = members s1" and "\<forall>r \<in> set rs2. r = members s1" by simp_all
    then show "members s' = fst (GetMembers s1)
        \<and> (\<forall>r \<in> set (drop (length rs1) rs). r = fst (GetMembers s1))"
      by (simp add: rs GetMembers_def)
  qed
  from A B C show ?thesis by blast
qed


theorem ServerGroup_members_final_once_read_witness:
  "run_calls [CallAddNewMember ''a''] sg0 = Inr (sg1, [])
   \<and> (\<exists>f. run_calls ([CallAddNewMember ''a''] @ CallGetMembers # [CallAddNewMember ''b'']) sg0 = Inl f)
   \<and> AddNewMember ''b'' (snd (GetMembers sg1)) =
        Inl (Fatalf ''attempt to add member %q after member list already returned'' ''b'')"
proof -
  have h: "run_calls [CallAddNewMember ''a''] sg0 = Inr (sg1, [])"
    by (simp add: sg0_def sg1_def AddNewMember_def)
  from ServerGroup_members_final_once_read [OF h, of "[CallAddNewMember ''b'']"]
  show ?thesis using h by simp
qed

subsection \<open>CheckChanges: immutable fields\<close>

lemma run_task_check_fails:
  "Find e = Inr a \<Longrightarrow> CheckChanges a e (Diff a e) = Some err \<Longrightarrow>
     run_task Find Diff CheckChanges Render t e = (t, Failed err)"
  by (simp add: run_task_def)

lemma ServerGroup_CheckChanges_ID:
  "a \<noteq> None \<Longrightarrow> SG_ID changes \<noteq> None \<Longrightarrow>
     ServerGroup_CheckChanges a e changes = Some (CannotChangeField ''ID'')"
  by (simp add: ServerGroup_CheckChanges_def)

lemma LoadBalancer_CheckChanges_ID:
  "a \<noteq> None \<Longrightarrow> LB_ID changes \<noteq> None \<Longrightarrow>
     LoadBalancer_CheckChanges a e changes =
       Some (CannotChangeField (if LB_Name changes = None then ''ID'' else ''Name''))"
  by (cases a) (simp_all add: LoadBalancer_CheckChanges_def)

text \<open>
  Claim C2, as stated, fails for the Hetzner load balancer: with the observed
  task present and both \<^verbatim>\<open>changes.Name\<close> and \<^verbatim>\<open>changes.ID\<close> set, the error names
  \<^verbatim>\<open>Name\<close>, which is checked first.
\<close>

theorem LoadBalancer_CheckChanges_ID_counterexample:
  "LB_ID lb_changes_name_id \<noteq> None
   \<and> (LoadBalancer_CheckChanges (Some lb_a) lb_e lb_changes_name_id :: unit error option)
        = Some (CannotChangeField ''Name'')
   \<and> (CannotChangeField ''Name'' :: unit error) \<noteq> CannotChangeField ''ID''"
  by (simp add: LoadBalancer_CheckChanges_def lb_changes_name_id_def)

text \<open>
  Claim C2, amended. When the observed task exists and the computed changes
  hold an \<^verbatim>\<open>ID\<close>, \<^verbatim>\<open>ServerGroup.CheckChanges\<close> returns \<open>CannotChangeField ''ID''\<close>;
  the Hetzner \<^verbatim>\<open>LoadBalancer.CheckChanges\<close> returns \<open>CannotChangeField ''ID''\<close> when
  \<^verbatim>\<open>changes.Name\<close> is nil and \<open>CannotChangeField ''Name''\<close> when it is set too. In
  each case the run of the task fails with that error and leaves the target
  as it was, whatever \<^verbatim>\<open>Render\<close> would have done: it is not invoked.
\<close>

theorem CheckChanges_ID_immutable:
  fixes Render :: "'t \<Rightarrow> ServerGroup option \<Rightarrow> ServerGroup \<Rightarrow> ServerGroup \<Rightarrow> 't \<times> 'c error option"
    and LRender :: "'u \<Rightarrow> 'net LoadBalancer option \<Rightarrow> 'net LoadBalancer \<Rightarrow> 'net LoadBalancer
                     \<Rightarrow> 'u \<times> 'd error option"
  shows
  "(a \<noteq> None \<and> SG_ID (Diff a e) \<noteq> None \<longrightarrow>
      ServerGroup_CheckChanges a e (Diff a e) = Some (CannotChangeField ''ID'' :: 'c error)
      \<and> (Find e = Inr a \<longrightarrow>
           run_task Find Diff ServerGroup_CheckChanges Render t e
             = (t, Failed (CannotChangeField ''ID''))))
   \<and> (la \<noteq> None \<and> LB_ID (LDiff la le) \<noteq> None \<longrightarrow>
      LoadBalancer_CheckChanges la le (LDiff la le) =
        Some (CannotChangeField (if LB_Name (LDiff la le) = None then ''ID'' else ''Name'') :: 'd error)
      \<and> (LFind le = Inr la \<longrightarrow>
           run_task LFind LDiff LoadBalancer_CheckChanges LRender lt le
             = (lt, Failed (CannotChangeField
                  (if LB_Name (LDiff la le) = None then ''ID'' else ''Name'')))))"
proof (intro conjI impI)
  assume h: "a \<noteq> None \<and> SG_ID (Diff a e) \<noteq> None"
  then show c: "ServerGroup_CheckChanges a e (Diff a e) = Some (CannotChangeField ''ID'' :: 'c error)"
    by (simp add: ServerGroup_CheckChanges_ID)
  assume "Find e = Inr a"
  with c show "run_task Find Diff ServerGroup_CheckChanges Render t e
          = (t, Failed (CannotChangeField ''ID''))"
    by (simp add: run_task_def Let_def)
next
  assume h: "la \<noteq> None \<and> LB_ID (LDiff la le) \<noteq> None"
  then show c: "LoadBalancer_CheckChanges la le (LDiff la le) =
        Some (CannotChangeField (if LB_Name (LDiff la le) = None then ''ID'' else ''Name'') :: 'd error)"
    by (simp add: LoadBalancer_CheckChanges_ID)
  assume "LFind le = Inr la"
  with c show "run_task LFind LDiff LoadBalancer_CheckChanges LRender lt le
             = (lt, Failed (CannotChangeField
                  (if LB_Name (LDiff la le) = None then ''ID'' else ''Name'')))"
    by (simp add: run_task_def Let_def)
qed

theorem CheckChanges_ID_immutable_witness:
  "Some sg0 \<noteq> None \<and> SG_ID ((\<lambda>a e. sg_changes_id) (Some sg0) sg1) \<noteq> None
   \<and> run_task (\<lambda>e. Inr (Some sg0)) (\<lambda>a e. sg_changes_id) ServerGroup_CheckChanges
         (\<lambda>t a e changes. (Suc t, None)) (0::nat) sg1
       = (0, Failed (CannotChangeField ''ID'' :: unit error))
   \<and> Some lb_a \<noteq> None \<and> LB_ID ((\<lambda>a e. lb_changes_id) (Some lb_a) lb_e) \<noteq> None
   \<and> run_task (\<lambda>e. Inr (Some lb_a)) (\<lambda>a e. lb_changes_id) LoadBalancer_CheckChanges
         (\<lambda>t a e changes. (Suc t, None)) (0::nat) lb_e
       = (0, Failed (CannotChangeField ''ID'' :: unit error))"
proof -
  have h1: "Some sg0 \<noteq> None \<and> SG_ID ((\<lambda>a e. sg_changes_id) (Some sg0) sg1) \<noteq> None"
    by (simp add: sg_changes_id_def)
  have h2: "Some lb_a \<noteq> None \<and> LB_ID ((\<lambda>a e. lb_changes_id) (Some lb_a) lb_e) \<noteq> None"
    by (simp add: lb_changes_id_def)
  have h3: "LB_Name lb_changes_id = None"
    by (simp add: lb_changes_id_def)
  from CheckChanges_ID_immutable
         [of "Some sg0" "\<lambda>a e. sg_changes_id" sg1 "\<lambda>e. Inr (Some sg0)"
             "\<lambda>t a e changes. (Suc t, None :: unit error option)" "0::nat"
             "Some lb_a" "\<lambda>a e. lb_changes_id" lb_e "\<lambda>e. Inr (Some lb_a)"
             "\<lambda>t a e changes. (Suc t, None :: unit error option)" "0::nat"]
       h1 h2 h3
  show ?thesis by simp
qed

subsection \<open>CheckChanges: required fields at creation\<close>

lemma ServerGroup_CheckChanges_creation:
  "ServerGroup_CheckChanges None e changes =
     (if SG_Name e = None then Some (RequiredField ''Name'') else None)"
  by (simp add: ServerGroup_CheckChanges_def)

lemma LoadBalancer_CheckChanges_creation:
  "LoadBalancer_CheckChanges None e changes =
     (if LB_Name e = None then Some (RequiredField ''Name'')
      else if LB_Location e = [] then Some (RequiredField ''Location'')
      else if LB_Type e = [] then Some (RequiredField ''Type'')
      else if LB_Services e = [] then Some (RequiredField ''Services'')
      else if LB_Target e = [] then Some (RequiredField ''Target'')
      else None)"
  by (simp add: LoadBalancer_CheckChanges_def)

lemma AutoscalingGroup_CheckChanges_observed:
  "AutoscalingGroup_CheckChanges (Some a) ex changes =
     (if ASG_Name ex = None then Some (RequiredField ''Name'') else None)"
  by (simp add: AutoscalingGroup_CheckChanges_def)

text \<open>
  Claim C3 does not hold of the code: \<^verbatim>\<open>AutoscalingGroup.CheckChanges\<close> tests the
  name under \<^verbatim>\<open>a != nil\<close>, so on the creation path (observed task nil) a desired
  task without a name is accepted. The ServerGroup and the Hetzner load
  balancer test their required fields under \<^verbatim>\<open>a == nil\<close>, as the lemmas
  before show.
\<close>

theorem AutoscalingGroup_CheckChanges_creation_accepts_unnamed:
  "ASG_Name asg_unnamed = None
   \<and> (AutoscalingGroup_CheckChanges None asg_unnamed asg_unnamed :: unit error option) = None"
  by (simp add: AutoscalingGroup_CheckChanges_def asg_unnamed_def)

subsection \<open>CheckChanges: the field an error names\<close>

text \<open>
  Claim C4 does not hold of the code: when the observed Hetzner load balancer
  has services and the changes hold services, the error names \<^verbatim>\<open>Subnets\<close>, which
  is no field of the task, and not \<^verbatim>\<open>Services\<close>.
\<close>

theorem LoadBalancer_CheckChanges_Services_names_Subnets:
  "(LoadBalancer_CheckChanges (Some lb_a) lb_a lb_changes_services :: unit error option)
     = Some (CannotChangeField ''Subnets'')"
  by (simp add: LoadBalancer_CheckChanges_def lb_changes_services_def lb_a_def)

subsection \<open>Find: observation\<close>

lemma ServerGroup_Find_loop_no_match:
  "\<forall>g \<in> set gs. osName g \<noteq> n \<Longrightarrow> ServerGroup_Find_loop s n actual gs = Inr actual"
  by (induction gs) simp_all

lemma ServerGroup_Find_calls:
  "\<forall>c \<in> set (fst (snd (ServerGroup_Find cloud so))). \<not> os_mutating c"
  by (simp add: ServerGroup_Find_def Let_def split: option.splits sum.splits)

lemma ServerGroup_Find_absent:
  assumes "ListAllPages cloud = Inr page" and "ExtractServerGroups cloud page = Inr gs"
    and "\<forall>g \<in> set gs. Some (osName g) \<noteq> SG_Name s"
  shows "ServerGroup_Find cloud (Some s) =
           (Some s, (if SG_Name s = None then [] else [ListServerGroups]), Inr None)"
proof (cases "SG_Name s")
  case None
  then show ?thesis by (simp add: ServerGroup_Find_def)
next
  case (Some n)
  with assms(3) have "\<forall>g \<in> set gs. osName g \<noteq> n" by auto
  then have "ServerGroup_Find_loop s n None gs = (Inr None :: 'a error + ServerGroup option)"
    by (rule ServerGroup_Find_loop_no_match)
  with Some assms(1,2) show ?thesis by (simp add: ServerGroup_Find_def)
qed

lemma ServerGroup_Find_found:
  assumes "ServerGroup_Find cloud (Some s) = (so', calls, Inr (Some actual))"
  shows "so' = Some (s\<lparr> SG_MaxSize := (if Int32Value (SG_MaxSize actual) <s Int32Value (SG_MaxSize s)
                                        then SG_MaxSize actual else SG_MaxSize s),
                        SG_ID := SG_ID actual, members := members actual \<rparr>)"
  using assms
  by (auto simp: ServerGroup_Find_def Let_def split: option.splits sum.splits if_splits)

lemma LoadBalancer_Find_loop_no_match:
  "\<forall>lb \<in> set lbs. h_Name lb \<noteq> StringValue (LB_Name v) \<Longrightarrow> LoadBalancer_Find_loop v lbs = None"
  by (induction lbs) simp_all

lemma LoadBalancer_Find_calls:
  "\<forall>c \<in> set (fst (snd (LoadBalancer_Find cloud v))). \<not> hcloud_mutating c"
  by (simp add: LoadBalancer_Find_def split: option.splits sum.splits)

lemma LoadBalancer_Find_absent:
  assumes "All cloud = Inr lbs" and "\<forall>lb \<in> set lbs. h_Name lb \<noteq> StringValue (LB_Name v)"
  shows "LoadBalancer_Find cloud v = (v, [Client_All], Inr None)"
  using assms by (simp add: LoadBalancer_Find_def LoadBalancer_Find_loop_no_match)

lemma LoadBalancer_Find_found:
  assumes "LoadBalancer_Find cloud v = (v', calls, Inr (Some matches))"
  shows "v' = v\<lparr>LB_ID := LB_ID matches\<rparr>"
  using assms by (auto simp: LoadBalancer_Find_def split: option.splits sum.splits)

lemma ServerGroup_Find_loop_single:
  "filter (\<lambda>g. osName g = n) gs = [g] \<Longrightarrow>
     ServerGroup_Find_loop s n None gs =
       Inr (Some \<lparr> SG_ID = Some (osID g), SG_Name = Some (osName g),
                    SG_ClusterName = SG_ClusterName s, SG_IGName = SG_IGName s,
                    SG_Policies = osPolicies g,
                    SG_MaxSize = Some (word_of_nat (length (osMembers g))),
                    SG_Lifecycle = SG_Lifecycle s, members = osMembers g,
                    gotMemberList = False \<rparr>)"
proof (induction gs)
  case Nil
  then show ?case by simp
next
  case (Cons g' gs)
  show ?case
  proof (cases "osName g' = n")
    case True
    with Cons.prems have eq: "g' = g" and none: "filter (\<lambda>g. osName g = n) gs = []" by simp_all
    from none have "\<forall>x \<in> set gs. osName x \<noteq> n" by (simp add: filter_empty_conv)
    then show ?thesis using True eq
      by (simp add: ServerGroup_Find_loop_no_match)
  next
    case False
    with Cons show ?thesis by simp
  qed
qed

lemma ServerGroup_Find_single:
  fixes cloud :: "('c, 'page) OpenstackCloud"
  assumes "SG_Name s = Some n" and "ListAllPages cloud = Inr page"
    and "ExtractServerGroups cloud page = Inr gs"
    and "filter (\<lambda>g. osName g = n) gs = [g]"
  shows "ServerGroup_Find cloud (Some s) =
     (Some (s\<lparr> SG_MaxSize :=
                  (if (word_of_nat (length (osMembers g)) :: 32 word) <s Int32Value (SG_MaxSize s)
                   then Some (word_of_nat (length (osMembers g))) else SG_MaxSize s),
                SG_ID := Some (osID g), members := osMembers g \<rparr>),
      [ListServerGroups],
      Inr (Some \<lparr> SG_ID = Some (osID g), SG_Name = Some (osName g),
                    SG_ClusterName = SG_ClusterName s, SG_IGName = SG_IGName s,
                    SG_Policies = osPolicies g,
                    SG_MaxSize = Some (word_of_nat (length (osMembers g))),
                    SG_Lifecycle = SG_Lifecycle s, members = osMembers g,
                    gotMemberList = False \<rparr>))"
proof -
  have loop: "ServerGroup_Find_loop s n None gs =
       (Inr (Some \<lparr> SG_ID = Some (osID g), SG_Name = Some (osName g),
                    SG_ClusterName = SG_ClusterName s, SG_IGName = SG_IGName s,
                    SG_Policies = osPolicies g,
                    SG_MaxSize = Some (word_of_nat (length (osMembers g))),
                    SG_Lifecycle = SG_Lifecycle s, members = osMembers g,
                    gotMemberList = False \<rparr>) :: 'c error + ServerGroup option)"
    using assms(4) by (rule ServerGroup_Find_loop_single)
  show ?thesis
    by (simp add: ServerGroup_Find_def assms(1-3) loop Int32Value_def Let_def)
qed

lemma ServerGroup_Find_unchanged_unless_found:
  assumes "\<forall>actual. snd (snd (ServerGroup_Find cloud (Some s))) \<noteq> Inr (Some actual)"
  shows "fst (ServerGroup_Find cloud (Some s)) = Some s"
  using assms
  by (auto simp: ServerGroup_Find_def Let_def split: option.splits sum.splits)

lemma LoadBalancer_Find_loop_find:
  "LoadBalancer_Find_loop v lbs =
     map_option (LoadBalancer_matches v) (find (\<lambda>lb. h_Name lb = StringValue (LB_Name v)) lbs)"
  by (induction lbs) simp_all

lemma LoadBalancer_Find_first:
  assumes "All hcloud = Inr lbs"
    and "find (\<lambda>lb. h_Name lb = StringValue (LB_Name v)) lbs = Some lb"
  shows "LoadBalancer_Find hcloud v =
           (v\<lparr>LB_ID := Some (h_ID lb)\<rparr>, [Client_All], Inr (Some (LoadBalancer_matches v lb)))"
  using assms
  by (simp add: LoadBalancer_Find_def LoadBalancer_Find_loop_find LoadBalancer_matches_def)

lemma LoadBalancer_Find_unchanged_unless_found:
  assumes "\<forall>matches. snd (snd (LoadBalancer_Find hcloud v)) \<noteq> Inr (Some matches)"
  shows "fst (LoadBalancer_Find hcloud v) = v"
  using assms
  by (auto simp: LoadBalancer_Find_def split: option.splits sum.splits)

text \<open>
  Claim C7, as stated, fails: \<^verbatim>\<open>Find\<close> is not pure observation of the desired
  task. Here the compute API lists one group with the task's name, and
  \<^verbatim>\<open>ServerGroup.Find\<close> writes its ID and its members into the receiver, which is
  no longer the task it was given.
\<close>

theorem ServerGroup_Find_writes_desired_counterexample:
  "ServerGroup_Find (os_cloud [osg1]) (Some sg0) =
     (Some (sg0\<lparr>SG_ID := Some ''id1'', members := [''m1'']\<rparr>), [ListServerGroups],
      (Inr (Some \<lparr> SG_ID = Some ''id1'', SG_Name = Some ''g'', SG_ClusterName = None,
                     SG_IGName = None, SG_Policies = [], SG_MaxSize = Some 1,
                     SG_Lifecycle = ''Sync'', members = [''m1''], gotMemberList = False \<rparr>)
        :: string error + ServerGroup option))
   \<and> sg0\<lparr>SG_ID := Some ''id1'', members := [''m1'']\<rparr> \<noteq> sg0"
  by (simp add: ServerGroup_Find_def os_cloud_def osg1_def sg0_def Int32Value_def word_sless_alt)

text \<open>
  Claim C7, amended. \<^verbatim>\<open>ServerGroup.Find\<close> and the Hetzner \<^verbatim>\<open>LoadBalancer.Find\<close>
  issue no mutating call on the cloud, whatever they find. When the listing
  succeeds and holds no resource with the task's name they return
  \<^verbatim>\<open>(nil, nil)\<close>, and whenever they return no observed task the desired task is
  as it was. When they return an observed task, the desired task differs from
  before in nothing but the ID written back and, for the ServerGroup, the
  member list and a \<^verbatim>\<open>MaxSize\<close> lowered to the observed one. They do return
  one, built from the listed resource, when the listing holds exactly one
  group with the ServerGroup's name, and for the load balancer the first
  listed one with its name.
\<close>

theorem Find_observes_without_cloud_mutation:
  fixes cloud :: "('c, 'page) OpenstackCloud" and hcloud :: "'d HetznerCloud"
    and v :: "'net LoadBalancer"
  shows
  "(\<forall>c \<in> set (fst (snd (ServerGroup_Find cloud so))). \<not> os_mutating c)
   \<and> (\<forall>c \<in> set (fst (snd (LoadBalancer_Find hcloud v))). \<not> hcloud_mutating c)
   \<and> (ListAllPages cloud = Inr page \<and> ExtractServerGroups cloud page = Inr gs
        \<and> (\<forall>g \<in> set gs. Some (osName g) \<noteq> SG_Name s) \<longrightarrow>
        fst (ServerGroup_Find cloud (Some s)) = Some s
        \<and> snd (snd (ServerGroup_Find cloud (Some s))) = Inr None)
   \<and> (All hcloud = Inr lbs \<and> (\<forall>lb \<in> set lbs. h_Name lb \<noteq> StringValue (LB_Name v)) \<longrightarrow>
        fst (LoadBalancer_Find hcloud v) = v
        \<and> snd (snd (LoadBalancer_Find hcloud v)) = Inr None)
   \<and> (\<forall>so' calls actual.
        ServerGroup_Find cloud (Some s) = (so', calls, Inr (Some actual)) \<longrightarrow>
        so' = Some (s\<lparr> SG_MaxSize := (if Int32Value (SG_MaxSize actual) <s Int32Value (SG_MaxSize s)
                                        then SG_MaxSize actual else SG_MaxSize s),
                       SG_ID := SG_ID actual, members := members actual \<rparr>))
   \<and> (\<forall>v' calls matches.
        LoadBalancer_Find hcloud v = (v', calls, Inr (Some matches)) \<longrightarrow>
        v' = v\<lparr>LB_ID := LB_ID matches\<rparr>)
   \<and> ((\<forall>actual. snd (snd (ServerGroup_Find cloud (Some s))) \<noteq> Inr (Some actual)) \<longrightarrow>
        fst (ServerGroup_Find cloud (Some s)) = Some s)
   \<and> ((\<forall>matches. snd (snd (LoadBalancer_Find hcloud v)) \<noteq> Inr (Some matches)) \<longrightarrow>
        fst (LoadBalancer_Find hcloud v) = v)
   \<and> (SG_Name s = Some n \<and> ListAllPages cloud = Inr page \<and> ExtractServerGroups cloud page = Inr gs
        \<and> filter (\<lambda>x. osName x = n) gs = [g] \<longrightarrow>
        ServerGroup_Find cloud (Some s) =
          (Some (s\<lparr> SG_MaxSize :=
                       (if (word_of_nat (length (osMembers g)) :: 32 word) <s Int32Value (SG_MaxSize s)
                        then Some (word_of_nat (length (osMembers g))) else SG_MaxSize s),
                     SG_ID := Some (osID g), members := osMembers g \<rparr>),
           [ListServerGroups],
           Inr (Some \<lparr> SG_ID = Some (osID g), SG_Name = Some (osName g),
                         SG_ClusterName = SG_ClusterName s, SG_IGName = SG_IGName s,
                         SG_Policies = osPolicies g,
                         SG_MaxSize = Some (word_of_nat (length (osMembers g))),
                         SG_Lifecycle = SG_Lifecycle s, members = osMembers g,
                         gotMemberList = False \<rparr>)))
   \<and> (All hcloud = Inr lbs
        \<and> find (\<lambda>x. h_Name x = StringValue (LB_Name v)) lbs = Some lb \<longrightarrow>
        LoadBalancer_Find hcloud v =
          (v\<lparr>LB_ID := Some (h_ID lb)\<rparr>, [Client_All], Inr (Some (LoadBalancer_matches v lb))))"
proof (intro conjI allI impI)
  show "\<forall>c \<in> set (fst (snd (ServerGroup_Find cloud so))). \<not> os_mutating c"
    by (rule ServerGroup_Find_calls)
  show "\<forall>c \<in> set (fst (snd (LoadBalancer_Find hcloud v))). \<not> hcloud_mutating c"
    by (rule LoadBalancer_Find_calls)
next
  assume h: "ListAllPages cloud = Inr page \<and> ExtractServerGroups cloud page = Inr gs
        \<and> (\<forall>g \<in> set gs. Some (osName g) \<noteq> SG_Name s)"
  then have a: "ListAllPages cloud = Inr page" and b: "ExtractServerGroups cloud page = Inr gs"
    and c: "\<forall>g \<in> set gs. Some (osName g) \<noteq> SG_Name s" by simp_all
  from ServerGroup_Find_absent [OF a b c]
  show "fst (ServerGroup_Find cloud (Some s)) = Some s"
    and "snd (snd (ServerGroup_Find cloud (Some s))) = Inr None" by simp_all
next
  assume h: "All hcloud = Inr lbs \<and> (\<forall>lb \<in> set lbs. h_Name lb \<noteq> StringValue (LB_Name v))"
  then have a: "All hcloud = Inr lbs"
    and b: "\<forall>lb \<in> set lbs. h_Name lb \<noteq> StringValue (LB_Name v)" by simp_all
  from LoadBalancer_Find_absent [OF a b]
  show "fst (LoadBalancer_Find hcloud v) = v"
    and "snd (snd (LoadBalancer_Find hcloud v)) = Inr None" by simp_all
next
  fix so' calls actual
  assume "ServerGroup_Find cloud (Some s) = (so', calls, Inr (Some actual))"
  then show "so' = Some (s\<lparr> SG_MaxSize := (if Int32Value (SG_MaxSize actual) <s Int32Value (SG_MaxSize s)
                                        then SG_MaxSize actual else SG_MaxSize s),
                       SG_ID := SG_ID actual, members := members actual \<rparr>)"
    by (rule ServerGroup_Find_found)
next
  fix v' calls matches
  assume "LoadBalancer_Find hcloud v = (v', calls, Inr (Some matches))"
  then show "v' = v\<lparr>LB_ID := LB_ID matches\<rparr>"
    by (rule LoadBalancer_Find_found)
next
  assume "\<forall>actual. snd (snd (ServerGroup_Find cloud (Some s))) \<noteq> Inr (Some actual)"
  then show "fst (ServerGroup_Find cloud (Some s)) = Some s"
    by (rule ServerGroup_Find_unchanged_unless_found)
next
  assume "\<forall>matches. snd (snd (LoadBalancer_Find hcloud v)) \<noteq> Inr (Some matches)"
  then show "fst (LoadBalancer_Find hcloud v) = v"
    by (rule LoadBalancer_Find_unchanged_unless_found)
next
  assume h: "SG_Name s = Some n \<and> ListAllPages cloud = Inr page
        \<and> ExtractServerGroups cloud page = Inr gs
        \<and> filter (\<lambda>x. osName x = n) gs = [g]"
  then have a: "SG_Name s = Some n" and b: "ListAllPages cloud = Inr page"
    and c: "ExtractServerGroups cloud page = Inr gs"
    and d: "filter (\<lambda>x. osName x = n) gs = [g]" by simp_all
  show "ServerGroup_Find cloud (Some s) =
          (Some (s\<lparr> SG_MaxSize :=
                       (if (word_of_nat (length (osMembers g)) :: 32 word) <s Int32Value (SG_MaxSize s)
                        then Some (word_of_nat (length (osMembers g))) else SG_MaxSize s),
                     SG_ID := Some (osID g), members := osMembers g \<rparr>),
           [ListServerGroups],
           Inr (Some \<lparr> SG_ID = Some (osID g), SG_Name = Some (osName g),
                         SG_ClusterName = SG_ClusterName s, SG_IGName = SG_IGName s,
                         SG_Policies = osPolicies g,
                         SG_MaxSize = Some (word_of_nat (length (osMembers g))),
                         SG_Lifecycle = SG_Lifecycle s, members = osMembers g,
                         gotMemberList = False \<rparr>))"
    by (rule ServerGroup_Find_single [OF a b c d])
next
  assume h: "All hcloud = Inr lbs
        \<and> find (\<lambda>x. h_Name x = StringValue (LB_Name v)) lbs = Some lb"
  then have a: "All hcloud = Inr lbs"
    and b: "find (\<lambda>x. h_Name x = StringValue (LB_Name v)) lbs = Some lb" by simp_all
  show "LoadBalancer_Find hcloud v =
          (v\<lparr>LB_ID := Some (h_ID lb)\<rparr>, [Client_All], Inr (Some (LoadBalancer_matches v lb)))"
    by (rule LoadBalancer_Find_first [OF a b])
qed

theorem Find_observes_without_cloud_mutation_witness:
  "ListAllPages (os_cloud [osg3]) = Inr [osg3]
   \<and> ExtractServerGroups (os_cloud [osg3]) [osg3] = Inr [osg3]
   \<and> Some (osName osg3) \<noteq> SG_Name sg0
   \<and> fst (ServerGroup_Find (os_cloud [osg3]) (Some sg0)) = Some sg0
   \<and> snd (snd (ServerGroup_Find (os_cloud [osg3]) (Some sg0))) = (Inr None :: string error + _)
   \<and> All hcloud1 = Inr [hlb1]
   \<and> h_Name hlb1 \<noteq> StringValue (LB_Name lb_a)
   \<and> fst (LoadBalancer_Find hcloud1 lb_a) = lb_a
   \<and> snd (snd (LoadBalancer_Find hcloud1 lb_a)) = Inr None
   \<and> filter (\<lambda>x. osName x = ''g'') [osg3, osg1] = [osg1]
   \<and> ServerGroup_Find (os_cloud [osg3, osg1]) (Some sg0) =
        (Some (sg0\<lparr>SG_ID := Some ''id1'', members := [''m1'']\<rparr>), [ListServerGroups],
         (Inr (Some \<lparr> SG_ID = Some ''id1'', SG_Name = Some ''g'', SG_ClusterName = None,
                        SG_IGName = None, SG_Policies = [], SG_MaxSize = Some 1,
                        SG_Lifecycle = ''Sync'', members = [''m1''], gotMemberList = False \<rparr>)
           :: string error + ServerGroup option))
   \<and> find (\<lambda>x. h_Name x = StringValue (LB_Name (lb_a\<lparr>LB_Name := Some ''other''\<rparr>))) [hlb1]
        = Some hlb1
   \<and> LoadBalancer_Find hcloud1 (lb_a\<lparr>LB_Name := Some ''other''\<rparr>) =
        (lb_a\<lparr>LB_Name := Some ''other'', LB_ID := Some 7\<rparr>, [Client_All],
         Inr (Some (LoadBalancer_matches (lb_a\<lparr>LB_Name := Some ''other''\<rparr>) hlb1)))"
proof -
  have h1: "ListAllPages (os_cloud [osg3]) = Inr [osg3]
      \<and> ExtractServerGroups (os_cloud [osg3]) [osg3] = Inr [osg3]
      \<and> (\<forall>g \<in> set [osg3]. Some (osName g) \<noteq> SG_Name sg0)"
    by (simp add: os_cloud_def osg3_def sg0_def)
  have h2: "All hcloud1 = Inr [hlb1]
      \<and> (\<forall>lb \<in> set [hlb1]. h_Name lb \<noteq> StringValue (LB_Name lb_a))"
    by (simp add: hcloud1_def hlb1_def lb_a_def StringValue_def)
  have h3: "SG_Name sg0 = Some ''g'' \<and> ListAllPages (os_cloud [osg3, osg1]) = Inr [osg3, osg1]
      \<and> ExtractServerGroups (os_cloud [osg3, osg1]) [osg3, osg1] = Inr [osg3, osg1]
      \<and> filter (\<lambda>x. osName x = ''g'') [osg3, osg1] = [osg1]"
    by (simp add: os_cloud_def osg3_def osg1_def sg0_def)
  have h4: "All hcloud1 = Inr [hlb1]
      \<and> find (\<lambda>x. h_Name x = StringValue (LB_Name (lb_a\<lparr>LB_Name := Some ''other''\<rparr>))) [hlb1]
           = Some hlb1"
    by (simp add: hcloud1_def hlb1_def StringValue_def)
  have e1: "(word_of_nat (length (osMembers osg1)) :: 32 word) = 1" "osID osg1 = ''id1''"
    "osMembers osg1 = [''m1'']" "osName osg1 = ''g''" "osPolicies osg1 = []"
    "\<not> ((1 :: 32 word) <s Int32Value (SG_MaxSize sg0))"
    "SG_ClusterName sg0 = None" "SG_IGName sg0 = None" "SG_Lifecycle sg0 = ''Sync''"
    by (simp_all add: osg1_def sg0_def Int32Value_def word_sless_alt)
  have e2: "h_ID hlb1 = 7" by (simp add: hlb1_def)
  have A: "fst (ServerGroup_Find (os_cloud [osg3]) (Some sg0)) = Some sg0
      \<and> snd (snd (ServerGroup_Find (os_cloud [osg3]) (Some sg0))) = (Inr None :: string error + _)
      \<and> fst (LoadBalancer_Find hcloud1 lb_a) = lb_a
      \<and> snd (snd (LoadBalancer_Find hcloud1 lb_a)) = Inr None"
    using Find_observes_without_cloud_mutation
         [where cloud="os_cloud [osg3]" and so=None and hcloud=hcloud1 and v=lb_a
            and page="[osg3]" and gs="[osg3]" and s=sg0 and lbs="[hlb1]"] h1 h2
    by blast
  have B: "ServerGroup_Find (os_cloud [osg3, osg1]) (Some sg0) =
        (Some (sg0\<lparr>SG_ID := Some ''id1'', members := [''m1'']\<rparr>), [ListServerGroups],
         (Inr (Some \<lparr> SG_ID = Some ''id1'', SG_Name = Some ''g'', SG_ClusterName = None,
                        SG_IGName = None, SG_Policies = [], SG_MaxSize = Some 1,
                        SG_Lifecycle = ''Sync'', members = [''m1''], gotMemberList = False \<rparr>)
           :: string error + ServerGroup option))"
    using Find_observes_without_cloud_mutation
         [where cloud="os_cloud [osg3, osg1] :: (string, OSServerGroup list) OpenstackCloud"
            and s=sg0 and n="''g''" and page="[osg3, osg1]" and gs="[osg3, osg1]" and g=osg1
            and hcloud=hcloud1 and v=lb_a] h3
    by (simp add: e1)
  have C: "LoadBalancer_Find hcloud1 (lb_a\<lparr>LB_Name := Some ''other''\<rparr>) =
        (lb_a\<lparr>LB_Name := Some ''other'', LB_ID := Some 7\<rparr>, [Client_All],
         Inr (Some (LoadBalancer_matches (lb_a\<lparr>LB_Name := Some ''other''\<rparr>) hlb1)))"
    using Find_observes_without_cloud_mutation
         [where hcloud=hcloud1 and v="lb_a\<lparr>LB_Name := Some ''other''\<rparr>" and lbs="[hlb1]"
            and lb=hlb1 and cloud="os_cloud [osg3] :: (string, OSServerGroup list) OpenstackCloud"] h4
    by (simp add: e2)
  from h1 h2 h3 h4 A B C show ?thesis by simp
qed

subsection \<open>Find: more than one match\<close>

lemma ServerGroup_Find_loop_second_match:
  "actual \<noteq> None \<Longrightarrow> \<exists>g \<in> set gs. osName g = n \<Longrightarrow>
     ServerGroup_Find_loop s n actual gs =
       Inl (Errorf ''Found multiple server groups with name %s'' [ArgString (StringValue (SG_Name s))])"
  by (induction gs) auto

lemma ServerGroup_Find_loop_multiple:
  "2 \<le> length (filter (\<lambda>g. osName g = n) gs) \<Longrightarrow>
     ServerGroup_Find_loop s n None gs =
       Inl (Errorf ''Found multiple server groups with name %s'' [ArgString (StringValue (SG_Name s))])"
proof (induction gs)
  case Nil
  then show ?case by simp
next
  case (Cons g gs)
  show ?case
  proof (cases "osName g = n")
    case True
    with Cons.prems have "1 \<le> length (filter (\<lambda>g. osName g = n) gs)" by simp
    then have "filter (\<lambda>g. osName g = n) gs \<noteq> []" by auto
    then have "\<exists>g \<in> set gs. osName g = n" by (auto simp: filter_empty_conv)
    with True show ?thesis
      by (simp add: ServerGroup_Find_loop_second_match)
  next
    case False
    with Cons show ?thesis by simp
  qed
qed

lemma findAutoscalingGroup_page_filter:
  "findAutoscalingGroup_page name found gs =
     found @ filter (\<lambda>g. Status g = None \<and> StringValue (AutoScalingGroupName g) = name) gs"
  by (induction gs arbitrary: found) simp_all

lemma findAutoscalingGroup_pages_filter:
  "foldl (findAutoscalingGroup_page name) found ps =
     found @ filter (\<lambda>g. Status g = None \<and> StringValue (AutoScalingGroupName g) = name) (concat ps)"
  by (induction ps arbitrary: found) (simp_all add: findAutoscalingGroup_page_filter)

lemma describeLoadBalancers_page_filter:
  "describeLoadBalancers_page flt found lbs = found @ filter flt lbs"
  by (induction lbs arbitrary: found) simp_all

lemma describeLoadBalancers_pages_filter:
  "foldl (describeLoadBalancers_page flt) found ps = found @ filter flt (concat ps)"
  by (induction ps arbitrary: found) (simp_all add: describeLoadBalancers_page_filter)

lemma findAutoscalingGroup_multiple:
  assumes "2 \<le> length (filter (\<lambda>g. Status g = None \<and> StringValue (AutoScalingGroupName g) = name)
                          (concat ps))"
  shows "findAutoscalingGroup (Inr ps) name =
           Inl (Errorf ''found multiple AutoscalingGroups with name: %q'' [ArgString name])"
proof -
  let ?found = "filter (\<lambda>g. Status g = None \<and> StringValue (AutoScalingGroupName g) = name) (concat ps)"
  from assms obtain x y zs where "?found = x # y # zs"
    by (cases ?found; cases "tl ?found") auto
  then show ?thesis
    by (simp add: findAutoscalingGroup_def findAutoscalingGroup_pages_filter)
qed

lemma findLoadBalancerByLoadBalancerName_multiple:
  assumes "2 \<le> length (filter (\<lambda>lb. StringValue (elb_LoadBalancerName lb) = name) (concat ps))"
  shows "findLoadBalancerByLoadBalancerName code (Inr ps) name =
           Inl (Errorf ''Found multiple ELBs with name %q'' [ArgString name])"
proof -
  let ?found = "filter (\<lambda>lb. StringValue (elb_LoadBalancerName lb) = name) (concat ps)"
  from assms have "?found \<noteq> []" and "length ?found \<noteq> Suc 0" by auto
  then show ?thesis
    by (simp add: findLoadBalancerByLoadBalancerName_def describeLoadBalancers_def
        describeLoadBalancers_pages_filter)
qed

text \<open>
  Claim C9. \<^verbatim>\<open>ServerGroup.Find\<close> returns the error (and no observed task, and
  leaves the receiver as it was) when the listing holds two or more groups
  with the desired name; \<^verbatim>\<open>findAutoscalingGroup\<close> returns the error when the pages
  hold two or more groups of that name that are not being deleted; and
  \<^verbatim>\<open>findLoadBalancerByLoadBalancerName\<close> returns the error when the pages hold two
  or more load balancers of that name.
\<close>

theorem Find_multiple_matches_is_error:
  fixes cloud :: "('c, 'page) OpenstackCloud"
    and ps :: "'a autoscaling_Group_scheme list list"
  shows
  "(SG_Name s = Some n \<and> ListAllPages cloud = Inr page \<and> ExtractServerGroups cloud page = Inr gs
      \<and> 2 \<le> length (filter (\<lambda>g. osName g = n) gs) \<longrightarrow>
      ServerGroup_Find cloud (Some s) =
        (Some s, [ListServerGroups],
         Inl (Errorf ''Found multiple server groups with name %s'' [ArgString n])))
   \<and> (2 \<le> length (filter (\<lambda>g. Status g = None \<and> StringValue (AutoScalingGroupName g) = name)
                       (concat ps)) \<longrightarrow>
      findAutoscalingGroup (Inr ps) name =
        (Inl (Errorf ''found multiple AutoscalingGroups with name: %q'' [ArgString name])
          :: 'd error + _))
   \<and> (2 \<le> length (filter (\<lambda>lb. StringValue (elb_LoadBalancerName lb) = lname) (concat lps)) \<longrightarrow>
      findLoadBalancerByLoadBalancerName code (Inr lps) lname =
        (Inl (Errorf ''Found multiple ELBs with name %q'' [ArgString lname]) :: 'e error + _))"
proof (intro conjI impI)
  assume h: "SG_Name s = Some n \<and> ListAllPages cloud = Inr page
      \<and> ExtractServerGroups cloud page = Inr gs
      \<and> 2 \<le> length (filter (\<lambda>g. osName g = n) gs)"
  then have "2 \<le> length (filter (\<lambda>g. osName g = n) gs)" by simp
  then have "ServerGroup_Find_loop s n None gs =
       (Inl (Errorf ''Found multiple server groups with name %s'' [ArgString (StringValue (SG_Name s))])
         :: 'c error + _)"
    by (rule ServerGroup_Find_loop_multiple)
  with h show "ServerGroup_Find cloud (Some s) =
        (Some s, [ListServerGroups],
         Inl (Errorf ''Found multiple server groups with name %s'' [ArgString n]))"
    by (simp add: ServerGroup_Find_def StringValue_def)
next
  assume "2 \<le> length (filter (\<lambda>g. Status g = None \<and> StringValue (AutoScalingGroupName g) = name)
                       (concat ps))"
  then show "findAutoscalingGroup (Inr ps) name =
        (Inl (Errorf ''found multiple AutoscalingGroups with name: %q'' [ArgString name])
          :: 'd error + _)"
    by (rule findAutoscalingGroup_multiple)
next
  assume "2 \<le> length (filter (\<lambda>lb. StringValue (elb_LoadBalancerName lb) = lname) (concat lps))"
  then show "findLoadBalancerByLoadBalancerName code (Inr lps) lname =
        (Inl (Errorf ''Found multiple ELBs with name %q'' [ArgString lname]) :: 'e error + _)"
    by (rule findLoadBalancerByLoadBalancerName_multiple)
qed

theorem Find_multiple_matches_is_error_witness:
  "SG_Name sg0 = Some ''g'' \<and> ListAllPages (os_cloud [osg1, osg3, osg2]) = Inr [osg1, osg3, osg2]
   \<and> ExtractServerGroups (os_cloud [osg1, osg3, osg2]) [osg1, osg3, osg2] = Inr [osg1, osg3, osg2]
   \<and> 2 \<le> length (filter (\<lambda>g. osName g = ''g'') [osg1, osg3, osg2])
   \<and> ServerGroup_Find (os_cloud [osg1, osg3, osg2]) (Some sg0) =
        (Some sg0, [ListServerGroups],
         Inl (Errorf ''Found multiple server groups with name %s'' [ArgString ''g'']))
   \<and> 2 \<le> length (filter (\<lambda>g. Status g = None \<and> StringValue (AutoScalingGroupName g) = ''nodes'')
                      (concat [[asg_g1], [asg_g1]]))
   \<and> findAutoscalingGroup (Inr [[asg_g1], [asg_g1]]) ''nodes'' =
        (Inl (Errorf ''found multiple AutoscalingGroups with name: %q'' [ArgString ''nodes''])
          :: string error + _)
   \<and> 2 \<le> length (filter (\<lambda>lb. StringValue (elb_LoadBalancerName lb) = ''api'')
                      (concat [[elb_d1, elb_d2]]))
   \<and> findLoadBalancerByLoadBalancerName (\<lambda>c. None) (Inr [[elb_d1, elb_d2]]) ''api'' =
        (Inl (Errorf ''Found multiple ELBs with name %q'' [ArgString ''api'']) :: string error + _)"
proof -
  have h1: "SG_Name sg0 = Some ''g''
      \<and> ListAllPages (os_cloud [osg1, osg3, osg2]) = Inr [osg1, osg3, osg2]
      \<and> ExtractServerGroups (os_cloud [osg1, osg3, osg2]) [osg1, osg3, osg2] = Inr [osg1, osg3, osg2]
      \<and> 2 \<le> length (filter (\<lambda>g. osName g = ''g'') [osg1, osg3, osg2])"
    by (simp add: os_cloud_def osg1_def osg2_def osg3_def sg0_def)
  have h2: "2 \<le> length (filter (\<lambda>g. Status g = None \<and> StringValue (AutoScalingGroupName g) = ''nodes'')
                      (concat [[asg_g1], [asg_g1]]))"
    by (simp add: asg_g1_def StringValue_def)
  have h3: "2 \<le> length (filter (\<lambda>lb. StringValue (elb_LoadBalancerName lb) = ''api'')
                      (concat [[elb_d1, elb_d2]]))"
    by (simp add: elb_d1_def elb_d2_def StringValue_def)
  from Find_multiple_matches_is_error
         [of sg0 "''g''" "os_cloud [osg1, osg3, osg2]" "[osg1, osg3, osg2]" "[osg1, osg3, osg2]"
             "''nodes''" "[[asg_g1], [asg_g1]]" "''api''" "[[elb_d1, elb_d2]]" "\<lambda>c. None"]
       h1 h2 h3
  show ?thesis by blast
qed

subsection \<open>Normalize: reordered lists\<close>

lemma map_sort_key_eq_sort: "map f (sort_key f xs) = sort (map f xs)"
proof -
  have "sort (map f xs) = map f (sort_key f xs)"
    by (rule properties_for_sort) (simp_all add: sorted_sort_key)
  then show ?thesis by simp
qed

lemma sort_key_perm_keys:
  assumes "mset ys = mset xs"
  shows "map f (sort_key f ys) = map f (sort_key f xs)"
proof -
  from assms have "mset (map f ys) = mset (map f xs)" by simp
  then have "sort (map f ys) = sort (map f xs)"
    by (metis properties_for_sort sorted_sort mset_sort)
  then show ?thesis by (simp add: map_sort_key_eq_sort)
qed

lemma sort_key_perm_distinct:
  assumes "mset ys = mset xs" and "distinct (map f xs)"
  shows "sort_key f ys = sort_key f xs"
proof (rule sort_key_inj_key_eq)
  show "mset ys = mset (sort_key f xs)" using assms(1) by simp
  from assms(2) have "inj_on f (set xs)" by (simp add: distinct_map)
  moreover from assms(1) have "set ys = set xs" by (rule mset_eq_setD)
  ultimately show "inj_on f (set ys)" by simp
  show "sorted (map f (sort_key f xs))" by (rule sorted_sort_key)
qed

lemma sort_perm:
  fixes xs :: "'a::linorder list"
  assumes "mset ys = mset xs"
  shows "sort ys = sort xs"
  using assms by (metis properties_for_sort sorted_sort mset_sort)

lemma Normalize_frame:
  "Normalize e = e\<lparr> CLB_Subnets := CLB_Subnets (Normalize e),
                    CLB_SecurityGroups := CLB_SecurityGroups (Normalize e) \<rparr>"
  by (simp add: Normalize_def)

lemma normalize_frame:
  "fst (normalize g) = g\<lparr>ASG_Metrics := ASG_Metrics (fst (normalize g))\<rparr>"
  by (simp add: normalize_def)

lemma Normalize_stable_sort:
  "mset (CLB_Subnets (Normalize e)) = mset (CLB_Subnets e)
   \<and> mset (CLB_SecurityGroups (Normalize e)) = mset (CLB_SecurityGroups e)
   \<and> sorted (map OrderSubnetsById (CLB_Subnets (Normalize e)))
   \<and> sorted (map OrderSecurityGroupsById (CLB_SecurityGroups (Normalize e)))
   \<and> (\<forall>k. filter (\<lambda>s. OrderSubnetsById s = k) (CLB_Subnets (Normalize e))
            = filter (\<lambda>s. OrderSubnetsById s = k) (CLB_Subnets e))
   \<and> (\<forall>k. filter (\<lambda>s. OrderSecurityGroupsById s = k) (CLB_SecurityGroups (Normalize e))
            = filter (\<lambda>s. OrderSecurityGroupsById s = k) (CLB_SecurityGroups e))"
  by (simp add: Normalize_def sorted_sort_key sort_key_stable)

lemma normalize_sorts:
  "sorted (ASG_Metrics (fst (normalize g)))
   \<and> mset (ASG_Metrics (fst (normalize g))) = mset (ASG_Metrics g)"
  by (simp add: normalize_def)

lemma normalize_no_error: "snd (normalize g) = None"
  by (simp add: normalize_def)

text \<open>
  Claim C5, as stated, fails: the sort is stable and its key is the ID, so two
  subnets whose IDs are equal (here both not yet assigned) keep the order in
  which they came, and the two orders of the list stay different.
\<close>

theorem Normalize_equal_IDs_keep_order_counterexample:
  "mset (CLB_Subnets (clb [subnet_b, subnet_a] None)) = mset (CLB_Subnets (clb [subnet_a, subnet_b] None))
   \<and> CLB_Subnets (Normalize (clb [subnet_a, subnet_b] None)) = [subnet_a, subnet_b]
   \<and> CLB_Subnets (Normalize (clb [subnet_b, subnet_a] None)) = [subnet_b, subnet_a]
   \<and> [subnet_a, subnet_b] \<noteq> [subnet_b, subnet_a]"
  by (simp add: Normalize_def clb_def OrderSubnetsById_def StringValue_def subnet_a_def subnet_b_def)

text \<open>
  Claim C5, amended. \<^verbatim>\<open>Normalize\<close> sorts the subnets and the security groups of
  a ClassicLoadBalancer stably by ID and touches nothing else: each list comes
  out a permutation of what went in, sorted by its ID key, with the elements
  of equal key in the order in which they came. So when the two lists are
  reordered, the normalized lists carry the same sequence of ID keys as those
  of the original, and when the ID keys within each list are pairwise
  distinct the two normalized tasks are equal. \<^verbatim>\<open>AutoscalingGroup.normalize\<close>
  returns no error, leaves the metrics sorted, a permutation of what went in,
  and touches nothing else, so two groups whose metrics differ in order only
  are equal after it.
\<close>

theorem Normalize_reordering:
  "(mset subnets = mset (CLB_Subnets e) \<and> mset groups = mset (CLB_SecurityGroups e) \<longrightarrow>
      map OrderSubnetsById
          (CLB_Subnets (Normalize (e\<lparr>CLB_Subnets := subnets, CLB_SecurityGroups := groups\<rparr>)))
        = map OrderSubnetsById (CLB_Subnets (Normalize e))
      \<and> map OrderSecurityGroupsById
           (CLB_SecurityGroups (Normalize (e\<lparr>CLB_Subnets := subnets, CLB_SecurityGroups := groups\<rparr>)))
        = map OrderSecurityGroupsById (CLB_SecurityGroups (Normalize e))
      \<and> sorted (map OrderSubnetsById (CLB_Subnets (Normalize e)))
      \<and> sorted (map OrderSecurityGroupsById (CLB_SecurityGroups (Normalize e)))
      \<and> (distinct (map OrderSubnetsById (CLB_Subnets e))
           \<and> distinct (map OrderSecurityGroupsById (CLB_SecurityGroups e)) \<longrightarrow>
           Normalize (e\<lparr>CLB_Subnets := subnets, CLB_SecurityGroups := groups\<rparr>) = Normalize e))
   \<and> (mset metrics = mset (ASG_Metrics g) \<longrightarrow>
        fst (normalize (g\<lparr>ASG_Metrics := metrics\<rparr>)) = fst (normalize g))
   \<and> mset (CLB_Subnets (Normalize e)) = mset (CLB_Subnets e)
   \<and> mset (CLB_SecurityGroups (Normalize e)) = mset (CLB_SecurityGroups e)
   \<and> sorted (map OrderSubnetsById (CLB_Subnets (Normalize e)))
   \<and> sorted (map OrderSecurityGroupsById (CLB_SecurityGroups (Normalize e)))
   \<and> (\<forall>k. filter (\<lambda>s. OrderSubnetsById s = k) (CLB_Subnets (Normalize e))
            = filter (\<lambda>s. OrderSubnetsById s = k) (CLB_Subnets e))
   \<and> (\<forall>k. filter (\<lambda>s. OrderSecurityGroupsById s = k) (CLB_SecurityGroups (Normalize e))
            = filter (\<lambda>s. OrderSecurityGroupsById s = k) (CLB_SecurityGroups e))
   \<and> Normalize e = e\<lparr> CLB_Subnets := CLB_Subnets (Normalize e),
                        CLB_SecurityGroups := CLB_SecurityGroups (Normalize e) \<rparr>
   \<and> sorted (ASG_Metrics (fst (normalize g)))
   \<and> mset (ASG_Metrics (fst (normalize g))) = mset (ASG_Metrics g)
   \<and> fst (normalize g) = g\<lparr>ASG_Metrics := ASG_Metrics (fst (normalize g))\<rparr>
   \<and> snd (normalize g) = None"
proof -
  have reorder: "mset subnets = mset (CLB_Subnets e) \<and> mset groups = mset (CLB_SecurityGroups e) \<longrightarrow>
      map OrderSubnetsById
          (CLB_Subnets (Normalize (e\<lparr>CLB_Subnets := subnets, CLB_SecurityGroups := groups\<rparr>)))
        = map OrderSubnetsById (CLB_Subnets (Normalize e))
      \<and> map OrderSecurityGroupsById
           (CLB_SecurityGroups (Normalize (e\<lparr>CLB_Subnets := subnets, CLB_SecurityGroups := groups\<rparr>)))
        = map OrderSecurityGroupsById (CLB_SecurityGroups (Normalize e))
      \<and> sorted (map OrderSubnetsById (CLB_Subnets (Normalize e)))
      \<and> sorted (map OrderSecurityGroupsById (CLB_SecurityGroups (Normalize e)))
      \<and> (distinct (map OrderSubnetsById (CLB_Subnets e))
           \<and> distinct (map OrderSecurityGroupsById (CLB_SecurityGroups e)) \<longrightarrow>
           Normalize (e\<lparr>CLB_Subnets := subnets, CLB_SecurityGroups := groups\<rparr>) = Normalize e)"
  proof (intro conjI impI)
    assume h: "mset subnets = mset (CLB_Subnets e) \<and> mset groups = mset (CLB_SecurityGroups e)"
    then have s: "mset subnets = mset (CLB_Subnets e)"
      and g: "mset groups = mset (CLB_SecurityGroups e)" by simp_all
    show "map OrderSubnetsById
            (CLB_Subnets (Normalize (e\<lparr>CLB_Subnets := subnets, CLB_SecurityGroups := groups\<rparr>)))
          = map OrderSubnetsById (CLB_Subnets (Normalize e))"
      using sort_key_perm_keys [OF s, of OrderSubnetsById] by (simp add: Normalize_def)
    show "map OrderSecurityGroupsById
             (CLB_SecurityGroups (Normalize (e\<lparr>CLB_Subnets := subnets, CLB_SecurityGroups := groups\<rparr>)))
          = map OrderSecurityGroupsById (CLB_SecurityGroups (Normalize e))"
      using sort_key_perm_keys [OF g, of OrderSecurityGroupsById] by (simp add: Normalize_def)
    show "sorted (map OrderSubnetsById (CLB_Subnets (Normalize e)))"
      by (simp add: Normalize_def sorted_sort_key)
    show "sorted (map OrderSecurityGroupsById (CLB_SecurityGroups (Normalize e)))"
      by (simp add: Normalize_def sorted_sort_key)
    assume d: "distinct (map OrderSubnetsById (CLB_Subnets e))
             \<and> distinct (map OrderSecurityGroupsById (CLB_SecurityGroups e))"
    then have d1: "distinct (map OrderSubnetsById (CLB_Subnets e))"
      and d2: "distinct (map OrderSecurityGroupsById (CLB_SecurityGroups e))" by simp_all
    have "sort_key OrderSubnetsById subnets = sort_key OrderSubnetsById (CLB_Subnets e)"
      by (rule sort_key_perm_distinct [OF s d1])
    moreover have "sort_key OrderSecurityGroupsById groups
             = sort_key OrderSecurityGroupsById (CLB_SecurityGroups e)"
      by (rule sort_key_perm_distinct [OF g d2])
    ultimately show "Normalize (e\<lparr>CLB_Subnets := subnets, CLB_SecurityGroups := groups\<rparr>) = Normalize e"
      by (simp add: Normalize_def)
  qed
  have metrics: "mset metrics = mset (ASG_Metrics g) \<longrightarrow>
        fst (normalize (g\<lparr>ASG_Metrics := metrics\<rparr>)) = fst (normalize g)"
  proof
    assume "mset metrics = mset (ASG_Metrics g)"
    then have "sort metrics = sort (ASG_Metrics g)" by (rule sort_perm)
    then show "fst (normalize (g\<lparr>ASG_Metrics := metrics\<rparr>)) = fst (normalize g)"
      by (simp add: normalize_def)
  qed
  note st = Normalize_stable_sort [of e]
  from st have st1: "mset (CLB_Subnets (Normalize e)) = mset (CLB_Subnets e)"
    and st2: "mset (CLB_SecurityGroups (Normalize e)) = mset (CLB_SecurityGroups e)"
    and st3: "sorted (map OrderSubnetsById (CLB_Subnets (Normalize e)))"
    and st4: "sorted (map OrderSecurityGroupsById (CLB_SecurityGroups (Normalize e)))"
    and st5: "\<forall>k. filter (\<lambda>s. OrderSubnetsById s = k) (CLB_Subnets (Normalize e))
            = filter (\<lambda>s. OrderSubnetsById s = k) (CLB_Subnets e)"
    and st6: "\<forall>k. filter (\<lambda>s. OrderSecurityGroupsById s = k) (CLB_SecurityGroups (Normalize e))
            = filter (\<lambda>s. OrderSecurityGroupsById s = k) (CLB_SecurityGroups e)"
    by blast+
  note fr = Normalize_frame [of e]
  note ns = normalize_sorts [of g]
  from ns have ns1: "sorted (ASG_Metrics (fst (normalize g)))"
    and ns2: "mset (ASG_Metrics (fst (normalize g))) = mset (ASG_Metrics g)" by blast+
  note nf = normalize_frame [of g]
  note ne = normalize_no_error [of g]
  show ?thesis
    apply (intro conjI)
    apply (rule reorder)
    apply (rule metrics)
    apply (rule st1) apply (rule st2) apply (rule st3) apply (rule st4)
    apply (rule st5) apply (rule st6)
    apply (rule fr)
    apply (rule ns1) apply (rule ns2) apply (rule nf) apply (rule ne)
    done
qed

theorem Normalize_reordering_witness:
  "mset [subnet_2, subnet_1] = mset (CLB_Subnets (clb [subnet_1, subnet_2] None))
   \<and> mset [sgroup_1] = mset (CLB_SecurityGroups (clb [subnet_1, subnet_2] None))
   \<and> distinct (map OrderSubnetsById (CLB_Subnets (clb [subnet_1, subnet_2] None)))
   \<and> distinct (map OrderSecurityGroupsById (CLB_SecurityGroups (clb [subnet_1, subnet_2] None)))
   \<and> Normalize ((clb [subnet_1, subnet_2] None)
                    \<lparr>CLB_Subnets := [subnet_2, subnet_1], CLB_SecurityGroups := [sgroup_1]\<rparr>)
       = Normalize (clb [subnet_1, subnet_2] None)
   \<and> mset [''GroupMinSize'', ''GroupMaxSize'']
       = mset (ASG_Metrics (asg_nodes [''GroupMaxSize'', ''GroupMinSize'']))
   \<and> fst (normalize ((asg_nodes [''GroupMaxSize'', ''GroupMinSize''])
                        \<lparr>ASG_Metrics := [''GroupMinSize'', ''GroupMaxSize'']\<rparr>))
       = (fst (normalize (asg_nodes [''GroupMaxSize'', ''GroupMinSize''])) :: unit AutoscalingGroup)"
proof -
  have h1: "mset [subnet_2, subnet_1] = mset (CLB_Subnets (clb [subnet_1, subnet_2] None))
      \<and> mset [sgroup_1] = mset (CLB_SecurityGroups (clb [subnet_1, subnet_2] None))"
    by (simp add: clb_def)
  have h2: "distinct (map OrderSubnetsById (CLB_Subnets (clb [subnet_1, subnet_2] None)))
      \<and> distinct (map OrderSecurityGroupsById (CLB_SecurityGroups (clb [subnet_1, subnet_2] None)))"
    by (simp add: clb_def OrderSubnetsById_def StringValue_def subnet_1_def subnet_2_def)
  have h3: "mset [''GroupMinSize'', ''GroupMaxSize'']
       = mset (ASG_Metrics (asg_nodes [''GroupMaxSize'', ''GroupMinSize'']))"
    by (simp add: asg_nodes_def)
  from Normalize_reordering
         [where subnets="[subnet_2, subnet_1]" and e="clb [subnet_1, subnet_2] None"
            and groups="[sgroup_1]" and metrics="[''GroupMinSize'', ''GroupMaxSize'']"
            and g="asg_nodes [''GroupMaxSize'', ''GroupMinSize'']"]
       h1 h2 h3
  show ?thesis by blast
qed

subsection \<open>ClassicLoadBalancer: a shared load balancer is not rendered\<close>

text \<open>
  Claim C10. For a ClassicLoadBalancer whose \<^verbatim>\<open>Shared\<close> is true, \<^verbatim>\<open>ShouldCreate\<close>
  returns false, and \<^verbatim>\<open>RenderAWS\<close>, \<^verbatim>\<open>RenderTerraform\<close> and \<^verbatim>\<open>RenderCloudformation\<close>
  return nil with the target exactly as it was given: whatever the work for an
  owned load balancer would call or emit, none of it happens.
\<close>

theorem ClassicLoadBalancer_shared_renders_nothing:
  fixes ownedAWS :: "'t \<Rightarrow> ClassicLoadBalancer option \<Rightarrow> ClassicLoadBalancer \<Rightarrow> ClassicLoadBalancer
                       \<Rightarrow> 't \<times> 'c error option"
    and ownedTF :: "'u \<Rightarrow> ClassicLoadBalancer option \<Rightarrow> ClassicLoadBalancer \<Rightarrow> ClassicLoadBalancer
                       \<Rightarrow> 'u \<times> 'd error option"
    and ownedCF :: "'w \<Rightarrow> ClassicLoadBalancer option \<Rightarrow> ClassicLoadBalancer \<Rightarrow> ClassicLoadBalancer
                       \<Rightarrow> 'w \<times> 'e error option"
  assumes "CLB_Shared e = Some True"
  shows "ShouldCreate a e changes = (False, (None :: 'f error option))
       \<and> ClassicLoadBalancer_RenderAWS ownedAWS t a e changes = (t, None)
       \<and> ClassicLoadBalancer_RenderTerraform ownedTF tf a e changes = (tf, None)
       \<and> ClassicLoadBalancer_RenderCloudformation ownedCF cf a e changes = (cf, None)"
  using assms
  by (simp add: ShouldCreate_def ClassicLoadBalancer_RenderAWS_def
      ClassicLoadBalancer_RenderTerraform_def ClassicLoadBalancer_RenderCloudformation_def
      BoolValue_def)

theorem ClassicLoadBalancer_shared_renders_nothing_witness:
  "CLB_Shared (clb [subnet_1] (Some True)) = Some True
   \<and> ShouldCreate None (clb [subnet_1] (Some True)) (clb [subnet_1] (Some True))
       = (False, (None :: unit error option))
   \<and> ClassicLoadBalancer_RenderAWS (\<lambda>t a e changes. (''CreateLoadBalancer'' # t, None))
        [] None (clb [subnet_1] (Some True)) (clb [subnet_1] (Some True))
       = ([], (None :: unit error option))
   \<and> ClassicLoadBalancer_RenderTerraform (\<lambda>t a e changes. (''aws_elb'' # t, None))
        [] None (clb [subnet_1] (Some True)) (clb [subnet_1] (Some True))
       = ([], (None :: unit error option))
   \<and> ClassicLoadBalancer_RenderCloudformation
        (\<lambda>t a e changes. (''AWS::ElasticLoadBalancing::LoadBalancer'' # t, None))
        [] None (clb [subnet_1] (Some True)) (clb [subnet_1] (Some True))
       = ([], (None :: unit error option))"
proof -
  have h: "CLB_Shared (clb [subnet_1] (Some True)) = Some True"
    by (simp add: clb_def)
  from ClassicLoadBalancer_shared_renders_nothing
         [OF h, of None "clb [subnet_1] (Some True)"
            "\<lambda>t a e changes. (''CreateLoadBalancer'' # t, (None :: unit error option))" "[]"
            "\<lambda>t a e changes. (''aws_elb'' # t, (None :: unit error option))" "[]"
            "\<lambda>t a e changes. (''AWS::ElasticLoadBalancing::LoadBalancer'' # t, (None :: unit error option))" "[]",
          where ?'f = unit]
  show ?thesis using h by simp
qed

subsection \<open>AutoscalingGroup: the retry signal of the creation path\<close>

lemma LoadBalancerNames_loop_not_retryable:
  "LoadBalancerNames_loop cloud h names ks = (h1, Inl err) \<Longrightarrow> \<not> retryable err"
proof (induction ks arbitrary: h names)
  case Nil
  then show ?case by simp
next
  case (Cons k ks)
  show ?case
  proof (cases "CLB_LoadBalancerName k = None")
    case False
    with Cons.prems have "LoadBalancerNames_loop cloud h (names @ [CLB_LoadBalancerName k]) ks = (h1, Inl err)"
      by simp
    then show ?thesis by (rule Cons.IH)
  next
    case True
    show ?thesis
    proof (cases "FindELBByNameTag cloud h (StringValue (CLB_Name k))")
      case (Inl cerr)
      with True Cons.prems have "err = CloudError cerr" by simp
      then show ?thesis by simp
    next
      case (Inr r)
      show ?thesis
      proof (cases r)
        case None
        with Inr True Cons.prems have "err = Errorf ''could not find load balancer to attach'' []"
          by simp
        then show ?thesis by simp
      next
        case (Some lbDesc)
        with Inr True Cons.prems have
          "LoadBalancerNames_loop cloud (h @ [Call_FindELBByNameTag (StringValue (CLB_Name k))])
             (names @ [elb_LoadBalancerName lbDesc]) ks = (h1, Inl err)"
          by simp
        then show ?thesis by (rule Cons.IH)
      qed
    qed
  qed
qed

lemma CreateAutoScalingGroup_request_not_retryable:
  assumes "CreateAutoScalingGroup_request cloud h v e = (h1, Inl (Inr err))"
  shows "\<not> retryable err"
proof (cases "LoadBalancerNames_loop cloud h [] (ASG_LoadBalancers e)")
  case (Pair h0 r)
  show ?thesis
  proof (cases r)
    case (Inl lerr)
    with Pair assms have "err = lerr"
      by (simp add: CreateAutoScalingGroup_request_def)
    with Pair Inl LoadBalancerNames_loop_not_retryable [of cloud h "[]" "ASG_LoadBalancers e" h0 lerr]
    show ?thesis by simp
  next
    case (Inr names)
    with Pair assms have
      "err = Errorf ''could not find one of launch template or mixed instances policy'' []"
      by (simp add: CreateAutoScalingGroup_request_def Let_def split: if_splits option.splits)
    then show ?thesis by simp
  qed
qed

lemma RenderAWS_create_after_request:
  assumes "CreateAutoScalingGroup_request cloud h v e = (h1, Inr request)"
    and "CreateAutoScalingGroup cloud h1 request = Some cerr"
  shows "AutoscalingGroup_RenderAWS_create cloud h v e =
           (h1 @ [Call_CreateAutoScalingGroup request],
            Inr (Some (if AWSErrorCode cloud cerr = ''ValidationError''
                          \<and> Contains (AWSErrorMessage cloud cerr) ''Invalid IAM Instance Profile name''
                       then TryAgainLaterError ''waiting for the IAM Instance Profile to be propagated''
                       else Errorf ''error creating AutoScalingGroup: %s''
                              [ArgString (AWSErrorMessage cloud cerr)])))"
  using assms by (simp add: AutoscalingGroup_RenderAWS_create_def Let_def)

lemma RenderAWS_create_retryable_only_from_create:
  assumes "AutoscalingGroup_RenderAWS_create cloud h v e = (h', Inr (Some err))"
    and "retryable err"
  shows "\<exists>h1 request cerr.
           CreateAutoScalingGroup_request cloud h v e = (h1, Inr request)
           \<and> CreateAutoScalingGroup cloud h1 request = Some cerr
           \<and> AWSErrorCode cloud cerr = ''ValidationError''
           \<and> Contains (AWSErrorMessage cloud cerr) ''Invalid IAM Instance Profile name''"
proof (cases "CreateAutoScalingGroup_request cloud h v e")
  case (Pair h1 r)
  show ?thesis
  proof (cases r)
    case (Inl early)
    show ?thesis
    proof (cases early)
      case (Inl p)
      with Pair \<open>r = Inl early\<close> assms(1) show ?thesis
        by (simp add: AutoscalingGroup_RenderAWS_create_def)
    next
      case (Inr rerr)
      with Pair \<open>r = Inl early\<close> assms(1) have "err = rerr"
        by (simp add: AutoscalingGroup_RenderAWS_create_def)
      moreover from Pair \<open>r = Inl early\<close> Inr have "\<not> retryable rerr"
        using CreateAutoScalingGroup_request_not_retryable [of cloud h v e h1 rerr] by simp
      ultimately show ?thesis using assms(2) by simp
    qed
  next
    case (Inr request)
    show ?thesis
    proof (cases "CreateAutoScalingGroup cloud h1 request")
      case (Some cerr)
      from RenderAWS_create_after_request [of cloud h v e h1 request cerr] Pair Inr Some assms
      show ?thesis by (auto split: if_splits)
    next
      case None
      with Pair Inr assms(1) have "\<not> retryable err"
        by (auto simp: AutoscalingGroup_RenderAWS_create_def Let_def
            split: option.splits if_splits)
      with assms(2) show ?thesis by simp
    qed
  qed
qed

text \<open>
  Claim C6. On the creation path \<^verbatim>\<open>RenderAWS\<close> returns a retryable error exactly
  when it reached the call of \<^verbatim>\<open>CreateAutoScalingGroup\<close> and that call failed
  with code \<^verbatim>\<open>ValidationError\<close> and a message containing
  \<^verbatim>\<open>Invalid IAM Instance Profile name\<close>; every other failure of that call is
  returned as the error \<^verbatim>\<open>error creating AutoScalingGroup: ...\<close>, which is not
  retryable.
\<close>

theorem RenderAWS_create_retry_iff:
  fixes cloud :: "('c, 'ir) AWSCloud"
  shows
  "((\<exists>h' err. AutoscalingGroup_RenderAWS_create cloud h v e = (h', Inr (Some err)) \<and> retryable err)
     \<longleftrightarrow>
    (\<exists>h1 request cerr.
       CreateAutoScalingGroup_request cloud h v e = (h1, Inr request)
       \<and> CreateAutoScalingGroup cloud h1 request = Some cerr
       \<and> AWSErrorCode cloud cerr = ''ValidationError''
       \<and> Contains (AWSErrorMessage cloud cerr) ''Invalid IAM Instance Profile name''))
   \<and> (\<forall>h1 request cerr.
         CreateAutoScalingGroup_request cloud h v e = (h1, Inr request)
         \<and> CreateAutoScalingGroup cloud h1 request = Some cerr
         \<and> \<not> (AWSErrorCode cloud cerr = ''ValidationError''
               \<and> Contains (AWSErrorMessage cloud cerr) ''Invalid IAM Instance Profile name'')
         \<longrightarrow> AutoscalingGroup_RenderAWS_create cloud h v e =
               (h1 @ [Call_CreateAutoScalingGroup request],
                Inr (Some (Errorf ''error creating AutoScalingGroup: %s''
                             [ArgString (AWSErrorMessage cloud cerr)])))
             \<and> \<not> retryable (Errorf ''error creating AutoScalingGroup: %s''
                                [ArgString (AWSErrorMessage cloud cerr) :: 'c fmt_arg]))"
proof (intro conjI iffI allI impI)
  assume "\<exists>h' err. AutoscalingGroup_RenderAWS_create cloud h v e = (h', Inr (Some err)) \<and> retryable err"
  then obtain h' err where
    "AutoscalingGroup_RenderAWS_create cloud h v e = (h', Inr (Some err))" and "retryable err"
    by blast
  then show "\<exists>h1 request cerr.
       CreateAutoScalingGroup_request cloud h v e = (h1, Inr request)
       \<and> CreateAutoScalingGroup cloud h1 request = Some cerr
       \<and> AWSErrorCode cloud cerr = ''ValidationError''
       \<and> Contains (AWSErrorMessage cloud cerr) ''Invalid IAM Instance Profile name''"
    by (rule RenderAWS_create_retryable_only_from_create)
next
  assume "\<exists>h1 request cerr.
       CreateAutoScalingGroup_request cloud h v e = (h1, Inr request)
       \<and> CreateAutoScalingGroup cloud h1 request = Some cerr
       \<and> AWSErrorCode cloud cerr = ''ValidationError''
       \<and> Contains (AWSErrorMessage cloud cerr) ''Invalid IAM Instance Profile name''"
  then obtain h1 request cerr where
    a: "CreateAutoScalingGroup_request cloud h v e = (h1, Inr request)"
    and b: "CreateAutoScalingGroup cloud h1 request = Some cerr"
    and c: "AWSErrorCode cloud cerr = ''ValidationError''"
    and d: "Contains (AWSErrorMessage cloud cerr) ''Invalid IAM Instance Profile name''"
    by blast
  from RenderAWS_create_after_request [OF a b] c d
  have "AutoscalingGroup_RenderAWS_create cloud h v e =
          (h1 @ [Call_CreateAutoScalingGroup request],
           Inr (Some (TryAgainLaterError ''waiting for the IAM Instance Profile to be propagated'')))"
    by simp
  moreover have "retryable (TryAgainLaterError ''waiting for the IAM Instance Profile to be propagated'' :: 'c error)"
    by simp
  ultimately show "\<exists>h' err. AutoscalingGroup_RenderAWS_create cloud h v e = (h', Inr (Some err))
      \<and> retryable err"
    by blast
next
  fix h1 request cerr
  assume h: "CreateAutoScalingGroup_request cloud h v e = (h1, Inr request)
         \<and> CreateAutoScalingGroup cloud h1 request = Some cerr
         \<and> \<not> (AWSErrorCode cloud cerr = ''ValidationError''
               \<and> Contains (AWSErrorMessage cloud cerr) ''Invalid IAM Instance Profile name'')"
  then have a: "CreateAutoScalingGroup_request cloud h v e = (h1, Inr request)"
    and b: "CreateAutoScalingGroup cloud h1 request = Some cerr" by simp_all
  from RenderAWS_create_after_request [OF a b] h
  show "AutoscalingGroup_RenderAWS_create cloud h v e =
               (h1 @ [Call_CreateAutoScalingGroup request],
                Inr (Some (Errorf ''error creating AutoScalingGroup: %s''
                             [ArgString (AWSErrorMessage cloud cerr)])))"
    by auto
  show "\<not> retryable (Errorf ''error creating AutoScalingGroup: %s''
                                [ArgString (AWSErrorMessage cloud cerr) :: 'c fmt_arg])"
    by simp
qed

lemma asg_nodes_request_built:
  "CreateAutoScalingGroup_request (aws_cloud answer) [] (asg_nodes []) (asg_nodes [])
     = ([], Inr asg_nodes_request)"
  by (simp add: CreateAutoScalingGroup_request_def aws_cloud_def asg_nodes_def
      asg_nodes_request_def UseMixedInstancesPolicy_def AutoscalingGroupTags_def
      AutoscalingGroupSubnets_def)

theorem RenderAWS_create_retry_iff_witness:
  "(\<exists>h' err.
      AutoscalingGroup_RenderAWS_create
        (aws_cloud (Some (''ValidationError'',
           ''Value (nodes.example.com) for parameter iamInstanceProfile is invalid. Invalid IAM Instance Profile name'')))
        [] (asg_nodes []) (asg_nodes []) = (h', Inr (Some err))
      \<and> retryable err)
   \<and> AutoscalingGroup_RenderAWS_create (aws_cloud (Some (''AccessDenied'', ''not authorized'')))
        [] (asg_nodes []) (asg_nodes [])
       = ([Call_CreateAutoScalingGroup asg_nodes_request],
          Inr (Some (Errorf ''error creating AutoScalingGroup: %s'' [ArgString ''not authorized''])))"
proof -
  let ?retry = "aws_cloud (Some (''ValidationError'',
           ''Value (nodes.example.com) for parameter iamInstanceProfile is invalid. Invalid IAM Instance Profile name''))"
  let ?fatal = "aws_cloud (Some (''AccessDenied'', ''not authorized''))"
  have r: "CreateAutoScalingGroup_request ?retry [] (asg_nodes []) (asg_nodes [])
             = ([], Inr asg_nodes_request)
      \<and> CreateAutoScalingGroup ?retry [] asg_nodes_request = Some (''ValidationError'',
           ''Value (nodes.example.com) for parameter iamInstanceProfile is invalid. Invalid IAM Instance Profile name'')
      \<and> AWSErrorCode ?retry (''ValidationError'',
           ''Value (nodes.example.com) for parameter iamInstanceProfile is invalid. Invalid IAM Instance Profile name'') = ''ValidationError''
      \<and> Contains (AWSErrorMessage ?retry (''ValidationError'',
           ''Value (nodes.example.com) for parameter iamInstanceProfile is invalid. Invalid IAM Instance Profile name''))
            ''Invalid IAM Instance Profile name''"
    by (simp add: asg_nodes_request_built) (simp add: aws_cloud_def HasPrefix_def)
  have f: "CreateAutoScalingGroup_request ?fatal [] (asg_nodes []) (asg_nodes [])
             = ([], Inr asg_nodes_request)
      \<and> CreateAutoScalingGroup ?fatal [] asg_nodes_request = Some (''AccessDenied'', ''not authorized'')
      \<and> \<not> (AWSErrorCode ?fatal (''AccessDenied'', ''not authorized'') = ''ValidationError''
            \<and> Contains (AWSErrorMessage ?fatal (''AccessDenied'', ''not authorized''))
                 ''Invalid IAM Instance Profile name'')"
    by (simp add: asg_nodes_request_built) (simp add: aws_cloud_def)
  have m: "AWSErrorMessage ?fatal (''AccessDenied'', ''not authorized'') = ''not authorized''"
    by (simp add: aws_cloud_def)
  from RenderAWS_create_retry_iff [of ?retry "[]" "asg_nodes []" "asg_nodes []"] r
  have "\<exists>h' err.
      AutoscalingGroup_RenderAWS_create ?retry [] (asg_nodes []) (asg_nodes []) = (h', Inr (Some err))
      \<and> retryable err"
    by blast
  moreover
  from RenderAWS_create_retry_iff [of ?fatal "[]" "asg_nodes []" "asg_nodes []"] f
  have "AutoscalingGroup_RenderAWS_create ?fatal [] (asg_nodes []) (asg_nodes []) =
               ([] @ [Call_CreateAutoScalingGroup asg_nodes_request],
                Inr (Some (Errorf ''error creating AutoScalingGroup: %s''
                             [ArgString (AWSErrorMessage ?fatal (''AccessDenied'', ''not authorized''))])))"
    by blast
  ultimately show ?thesis by (simp add: m)
qed

subsection \<open>The diff of a task against itself\<close>

lemma populated_unchanged: "all_unchanged changes \<Longrightarrow> populated changes = []"
  by (induction changes rule: populated.induct) (simp_all add: all_unchanged_def)

lemma zip_self_unchanged:
  "list_all (\<lambda>(f, c). c = Unchanged)
     (map (\<lambda>((fa, va), (f, v)). (f, if va = v then Unchanged else Changed v)) (zip xs xs))"
  by (induction xs) auto

lemma BuildChanges_self: "all_unchanged (BuildChanges (Some t) t)"
  by (simp add: BuildChanges_def all_unchanged_def zip_self_unchanged)

lemma Render_unchanged: "all_unchanged changes \<Longrightarrow> Render tg a e changes = (tg, None)"
  by (simp add: Render_def populated_unchanged split: target_kind.splits)

text \<open>
  Claim C1. The diff of a task against an identical copy of itself is
  all-unchanged, and \<^verbatim>\<open>Render\<close> of an all-unchanged Changes returns no error and
  leaves the target as it was (no API call, no document block, no report
  line), on each kind of target.
\<close>

theorem Render_of_self_diff_is_noop:
  "all_unchanged (BuildChanges (Some t) t)
   \<and> Render tg (Some t) t (BuildChanges (Some t) t) = (tg, None)
   \<and> (all_unchanged changes \<longrightarrow> Render tg a e changes = (tg, None))"
  by (simp add: BuildChanges_self Render_unchanged)

theorem Render_of_self_diff_is_noop_witness:
  "all_unchanged (BuildChanges (Some testTask) testTask)
   \<and> Render \<lparr>Target_Kind = DryRun, api_calls = [], document = [], report = []\<rparr>
        (Some testTask) testTask (BuildChanges (Some testTask) testTask)
      = (\<lparr>Target_Kind = DryRun, api_calls = [], document = [], report = []\<rparr>, None)"
  using Render_of_self_diff_is_noop
          [of testTask "\<lparr>Target_Kind = DryRun, api_calls = [], document = [], report = []\<rparr>"
              "BuildChanges (Some testTask) testTask" "Some testTask" testTask]
  by simp

end
